theory Spec2Isabelle
  imports Complex_Main "HOL-Library.AList" "HOL-Library.Sublist"
begin

section \<open>Python values the review engine handles\<close>

text \<open>
  A shallow embedding of \<^verbatim>\<open>review_core.py\<close>. Python strings are modelled as
  \<^typ>\<open>string\<close>; the string builtins below act as Python's do on ASCII text and leave
  every other character alone. Python's integers are \<^typ>\<open>int\<close>; the interpreter's
  optional limit on the length of a decimal string that it converts is not modelled.
  A call that can raise returns \<open>py_error + 'a\<close>, with \<open>Inl\<close> the exception.
\<close>

datatype py_error =
    OSError
  | FileNotFoundError
  | PermissionError
  | ValueError
  | JSONDecodeError
  | UnicodeDecodeError
  | TypeError
  | AttributeError
  | OverflowError
  | SyntaxError
  | OtherException string

text \<open>
  \<open>except_matches e c\<close>: an \<^verbatim>\<open>except c\<close> clause catches \<open>e\<close>, by the class
  hierarchy of the exceptions above (\<^verbatim>\<open>FileNotFoundError\<close> and
  \<^verbatim>\<open>PermissionError\<close> derive from \<^verbatim>\<open>OSError\<close>;
  \<^verbatim>\<open>json.JSONDecodeError\<close> and \<^verbatim>\<open>UnicodeDecodeError\<close> derive from
  \<^verbatim>\<open>ValueError\<close>).
\<close>

definition except_matches :: "py_error \<Rightarrow> py_error \<Rightarrow> bool" where
  "except_matches e c =
     (e = c
      \<or> (c = OSError \<and> (e = FileNotFoundError \<or> e = PermissionError))
      \<or> (c = ValueError \<and> (e = JSONDecodeError \<or> e = UnicodeDecodeError)))"

datatype pyfloat = Finite rat | PosInf | NegInf | NaN

text \<open>What \<^verbatim>\<open>json.loads\<close> returns: a JSON object is a \<^verbatim>\<open>dict\<close> with string keys.\<close>

datatype json =
    JNull
  | JBool bool
  | JInt int
  | JFloat pyfloat
  | JStr string
  | JArr "json list"
  | JObj "(string \<times> json) list"

subsection \<open>String builtins\<close>

definition is_space :: "char \<Rightarrow> bool" where
  "is_space c = (c \<in> set [CHR 0x09, CHR 0x0A, CHR 0x0B, CHR 0x0C, CHR 0x0D,
                            CHR 0x1C, CHR 0x1D, CHR 0x1E, CHR 0x1F, CHR '' ''])"

definition py_strip :: "string \<Rightarrow> string" where
  "py_strip s = rev (dropWhile is_space (rev (dropWhile is_space s)))"

definition is_linebreak :: "char \<Rightarrow> bool" where
  "is_linebreak c = (c \<in> set [CHR 0x0A, CHR 0x0B, CHR 0x0C, CHR 0x0D,
                               CHR 0x1C, CHR 0x1D, CHR 0x1E])"

text \<open>\<^verbatim>\<open>str.splitlines()\<close>: \<open>cur\<close> is the line being read; a final empty line is dropped.\<close>

fun splitlines_from :: "string \<Rightarrow> string \<Rightarrow> string list" where
  "splitlines_from cur [] = (if cur = [] then [] else [cur])"
| "splitlines_from cur [c] =
     (if is_linebreak c then [cur] else [cur @ [c]])"
| "splitlines_from cur (c # d # cs) =
     (if c = CHR 0x0D \<and> d = CHR 0x0A then cur # splitlines_from [] cs
      else if is_linebreak c then cur # splitlines_from [] (d # cs)
      else splitlines_from (cur @ [c]) (d # cs))"

definition py_splitlines :: "string \<Rightarrow> string list" where
  "py_splitlines s = splitlines_from [] s"

text \<open>\<^verbatim>\<open>s.split(sep, maxsplit)\<close> for a one-character separator.\<close>

fun py_split :: "char \<Rightarrow> nat \<Rightarrow> string \<Rightarrow> string list" where
  "py_split sep 0 s = [s]"
| "py_split sep (Suc n) s =
     (if sep \<in> set s
      then takeWhile (\<lambda>c. c \<noteq> sep) s # py_split sep n (tl (dropWhile (\<lambda>c. c \<noteq> sep) s))
      else [s])"

definition is_digit :: "char \<Rightarrow> bool" where
  "is_digit c = (let n = (of_char c :: nat) in 48 \<le> n \<and> n \<le> 57)"

definition digit_value :: "char \<Rightarrow> int" where
  "digit_value c = int (of_char c) - 48"

text \<open>
  The digits of an integer literal: single underscores may stand between digits.
  \<open>prev\<close> says that the character before was a digit.
\<close>

fun digits_value :: "string \<Rightarrow> int \<Rightarrow> bool \<Rightarrow> int option" where
  "digits_value [] acc prev = (if prev then Some acc else None)"
| "digits_value (c # cs) acc prev =
     (if is_digit c then digits_value cs (acc * 10 + digit_value c) True
      else if c = CHR ''_'' \<and> prev then digits_value cs acc False
      else None)"

text \<open>
  The blanks that \<^verbatim>\<open>int()\<close> skips around the digits of an ASCII string: space, TAB,
  LF, VT, FF and CR, fewer than \<^verbatim>\<open>str.strip()\<close> removes.
\<close>

definition is_int_blank :: "char \<Rightarrow> bool" where
  "is_int_blank c = (c \<in> set [CHR 0x09, CHR 0x0A, CHR 0x0B, CHR 0x0C, CHR 0x0D, CHR '' ''])"

text \<open>\<^verbatim>\<open>int(s)\<close> for a string, base 10: surrounding blanks, an optional sign, digits.\<close>

definition py_int_str :: "string \<Rightarrow> py_error + int" where
  "py_int_str s =
     (let t = rev (dropWhile is_int_blank (rev (dropWhile is_int_blank s)));
          neg = (t \<noteq> [] \<and> hd t = CHR ''-'');
          body = (if t \<noteq> [] \<and> (hd t = CHR ''-'' \<or> hd t = CHR ''+'') then tl t else t)
      in case digits_value body 0 False of
           None \<Rightarrow> Inl ValueError
         | Some n \<Rightarrow> Inr (if neg then - n else n))"

text \<open>\<^verbatim>\<open>str(n)\<close> for an integer, as an f-string formats it.\<close>

fun nat_digits :: "nat \<Rightarrow> string" where
  "nat_digits n =
     (if n < 10 then [''0123456789'' ! n]
      else nat_digits (n div 10) @ [''0123456789'' ! (n mod 10)])"

definition py_str_int :: "int \<Rightarrow> string" where
  "py_str_int n = (if n < 0 then CHR ''-'' # nat_digits (nat (- n)) else nat_digits (nat n))"

definition upper_char :: "char \<Rightarrow> char" where
  "upper_char c =
     (case map_of (zip ''abcdefghijklmnopqrstuvwxyz'' ''ABCDEFGHIJKLMNOPQRSTUVWXYZ'') c of
        Some u \<Rightarrow> u
      | None \<Rightarrow> c)"

definition py_upper :: "string \<Rightarrow> string" where
  "py_upper s = map upper_char s"

declare nat_digits.simps [simp del]


subsection \<open>Builtins on JSON values\<close>

text \<open>\<^verbatim>\<open>int(v)\<close>: a float is truncated towards zero.\<close>

definition py_int :: "json \<Rightarrow> py_error + int" where
  "py_int v =
     (case v of
        JInt n \<Rightarrow> Inr n
      | JBool b \<Rightarrow> Inr (if b then 1 else 0)
      | JFloat f \<Rightarrow>
          (case f of
             Finite q \<Rightarrow> Inr (if 0 \<le> q then \<lfloor>q\<rfloor> else \<lceil>q\<rceil>)
           | NaN \<Rightarrow> Inl ValueError
           | _ \<Rightarrow> Inl OverflowError)
      | JStr s \<Rightarrow> py_int_str s
      | _ \<Rightarrow> Inl TypeError)"

text \<open>Truth value of a JSON value, as \<^verbatim>\<open>or\<close> tests it.\<close>

definition py_truthy :: "json \<Rightarrow> bool" where
  "py_truthy v =
     (case v of
        JNull \<Rightarrow> False
      | JBool b \<Rightarrow> b
      | JInt n \<Rightarrow> n \<noteq> 0
      | JFloat f \<Rightarrow> f \<noteq> Finite 0
      | JStr s \<Rightarrow> s \<noteq> []
      | JArr xs \<Rightarrow> xs \<noteq> []
      | JObj kvs \<Rightarrow> kvs \<noteq> [])"

text \<open>\<^verbatim>\<open>v.get(key, default)\<close>: only a \<^verbatim>\<open>dict\<close> has the method.\<close>

definition py_get :: "json \<Rightarrow> string \<Rightarrow> json \<Rightarrow> py_error + json" where
  "py_get v key dflt =
     (case v of
        JObj kvs \<Rightarrow> Inr (case map_of kvs key of None \<Rightarrow> dflt | Some x \<Rightarrow> x)
      | _ \<Rightarrow> Inl AttributeError)"

text \<open>
  What a \<^verbatim>\<open>for\<close> loop iterates over: the items of a list, the keys of a dict, the
  characters of a string.
\<close>

definition py_iter :: "json \<Rightarrow> py_error + json list" where
  "py_iter v =
     (case v of
        JArr xs \<Rightarrow> Inr xs
      | JObj kvs \<Rightarrow> Inr (map (\<lambda>kv. JStr (fst kv)) kvs)
      | JStr s \<Rightarrow> Inr (map (\<lambda>c. JStr [c]) s)
      | _ \<Rightarrow> Inl TypeError)"

text \<open>\<^verbatim>\<open>v.upper()\<close>: only a string has the method.\<close>

definition py_upper_of :: "json \<Rightarrow> py_error + string" where
  "py_upper_of v = (case v of JStr s \<Rightarrow> Inr (py_upper s) | _ \<Rightarrow> Inl AttributeError)"

section \<open>The data model\<close>

text \<open>
  The dataclass \<^verbatim>\<open>Issue\<close>. The fields \<open>rule\<close> and \<open>message\<close> hold whatever
  the adapter stored: the security adapter stores the JSON value it read, unchecked.
\<close>

record Issue =
  "file" :: string
  line :: int
  severity :: string
  tool :: string
  rule :: json
  message :: json
  suggestion :: "string option"

text \<open>A block of \<^verbatim>\<open>radon\<close>'s \<^verbatim>\<open>cc_visit\<close>: the three attributes the adapter reads.\<close>

record block =
  name :: string
  complexity :: int
  lineno :: int

text \<open>What the adapters read of \<^verbatim>\<open>unidiff\<close>'s \<^verbatim>\<open>PatchSet\<close>.\<close>

record diff_line =
  is_added :: bool
  target_line_no :: "int option"

record patched_file =
  is_removed_file :: bool
  target_file :: string
  hunks :: "diff_line list list"

text \<open>
  The environment of one run: how the operating system and the three libraries answer.
  \<open>mkstemp\<close> gets the suffix and returns the path; \<open>write_text\<close> gets the path and the
  text; \<open>subprocess_run\<close> gets the command line and returns the captured standard
  output; \<open>py_repr\<close> is \<^verbatim>\<open>str()\<close> of a value that is not a string.
\<close>

record world =
  sys_executable :: string
  mkstemp :: "string \<Rightarrow> py_error + string"
  write_text :: "string \<Rightarrow> string \<Rightarrow> py_error option"
  subprocess_run :: "string list \<Rightarrow> py_error + string"
  json_loads :: "string \<Rightarrow> py_error + json"
  cc_visit :: "string \<Rightarrow> py_error + block list"
  PatchSet :: "string \<Rightarrow> py_error + patched_file list"
  py_repr :: "json \<Rightarrow> string"

section \<open>Tool adapters\<close>

definition write_temp_code :: "world \<Rightarrow> string \<Rightarrow> string \<Rightarrow> py_error + string" where
  "write_temp_code w code sfx =
     (case mkstemp w sfx of
        Inl e \<Rightarrow> Inl e
      | Inr path \<Rightarrow>
          (case write_text w path code of
             Some e \<Rightarrow> Inl e
           | None \<Rightarrow> Inr path))"

definition flake8_cmd :: "world \<Rightarrow> string \<Rightarrow> string list" where
  "flake8_cmd w tmp =
     [sys_executable w, ''-m'', ''flake8'', ''--format'',
      ''%(row)d|%(col)d|%(code)s|%(text)s'', tmp]"

text \<open>The body of the \<^verbatim>\<open>try\<close> inside the loop of \<^verbatim>\<open>run_flake8\<close>.\<close>

definition flake8_line :: "string \<Rightarrow> string \<Rightarrow> py_error + Issue" where
  "flake8_line filename_hint l =
     (case py_split (CHR ''|'') 3 l of
        [row, col, code_id, txt] \<Rightarrow>
          (case py_int_str row of
             Inl e \<Rightarrow> Inl e
           | Inr n \<Rightarrow>
               Inr \<lparr>file = filename_hint, line = n, severity = ''LOW'', tool = ''flake8'',
                    rule = JStr code_id, message = JStr txt, suggestion = None\<rparr>)
      | _ \<Rightarrow> Inl ValueError)"

fun flake8_loop :: "string \<Rightarrow> string list \<Rightarrow> Issue list \<Rightarrow> py_error + Issue list" where
  "flake8_loop filename_hint [] issues = Inr issues"
| "flake8_loop filename_hint (l # ls) issues =
     (case flake8_line filename_hint l of
        Inr i \<Rightarrow> flake8_loop filename_hint ls (issues @ [i])
      | Inl e \<Rightarrow>
          if except_matches e ValueError then flake8_loop filename_hint ls issues
          else Inl e)"

text \<open>
  The \<^verbatim>\<open>finally\<close> clause unlinks the temporary file and swallows the error of
  that: it changes no result, and is not modelled.
\<close>

definition run_flake8 :: "world \<Rightarrow> string \<Rightarrow> string \<Rightarrow> py_error + Issue list" where
  "run_flake8 w code filename_hint =
     (case write_temp_code w code ''.py'' of
        Inl e \<Rightarrow> Inl e
      | Inr tmp \<Rightarrow>
          (case subprocess_run w (flake8_cmd w tmp) of
             Inl e \<Rightarrow>
               if except_matches e FileNotFoundError
               then Inr [\<lparr>file = filename_hint, line = 1, severity = ''LOW'',
                          tool = ''flake8'', rule = JStr ''INSTALL'',
                          message = JStr ''flake8 not found. Did you install requirements?'',
                          suggestion = None\<rparr>]
               else Inl e
           | Inr out \<Rightarrow> flake8_loop filename_hint (py_splitlines (py_strip out)) []))"

definition bandit_cmd :: "world \<Rightarrow> string \<Rightarrow> string list" where
  "bandit_cmd w tmp = [sys_executable w, ''-m'', ''bandit'', ''-q'', ''-f'', ''json'', tmp]"

text \<open>The body of the loop of \<^verbatim>\<open>run_bandit\<close>, statement by statement.\<close>

definition bandit_record :: "string \<Rightarrow> json \<Rightarrow> py_error + Issue" where
  "bandit_record filename_hint res =
     (case py_get res ''line_number'' (JInt 1) of
        Inl e \<Rightarrow> Inl e
      | Inr v \<Rightarrow>
     (case py_int v of
        Inl e \<Rightarrow> Inl e
      | Inr n \<Rightarrow>
     (case py_get res ''issue_severity'' JNull of
        Inl e \<Rightarrow> Inl e
      | Inr s \<Rightarrow>
     (case py_upper_of (if py_truthy s then s else JStr ''LOW'') of
        Inl e \<Rightarrow> Inl e
      | Inr sev \<Rightarrow>
     (case py_get res ''test_id'' (JStr ''BXXX'') of
        Inl e \<Rightarrow> Inl e
      | Inr r \<Rightarrow>
     (case py_get res ''issue_text'' (JStr ''Security issue'') of
        Inl e \<Rightarrow> Inl e
      | Inr msg \<Rightarrow>
          Inr \<lparr>file = filename_hint, line = n, severity = sev, tool = ''bandit'',
               rule = r, message = msg, suggestion = None\<rparr>))))))"

text \<open>
  The loop appends to \<open>issues\<close>; when the body raises, the list built so far and the
  exception are what the \<^verbatim>\<open>except\<close> clause sees.
\<close>

fun bandit_loop :: "string \<Rightarrow> json list \<Rightarrow> Issue list \<Rightarrow> Issue list \<times> py_error option" where
  "bandit_loop filename_hint [] issues = (issues, None)"
| "bandit_loop filename_hint (res # rest) issues =
     (case bandit_record filename_hint res of
        Inl e \<Rightarrow> (issues, Some e)
      | Inr i \<Rightarrow> bandit_loop filename_hint rest (issues @ [i]))"

definition bandit_try :: "world \<Rightarrow> string \<Rightarrow> string \<Rightarrow> Issue list \<times> py_error option" where
  "bandit_try w filename_hint out =
     (case json_loads w (if out = [] then ''{}'' else out) of
        Inl e \<Rightarrow> ([], Some e)
      | Inr data \<Rightarrow>
          (case py_get data ''results'' (JArr []) of
             Inl e \<Rightarrow> ([], Some e)
           | Inr results \<Rightarrow>
               (case py_iter results of
                  Inl e \<Rightarrow> ([], Some e)
                | Inr items \<Rightarrow> bandit_loop filename_hint items [])))"

definition run_bandit :: "world \<Rightarrow> string \<Rightarrow> string \<Rightarrow> py_error + Issue list" where
  "run_bandit w code filename_hint =
     (case write_temp_code w code ''.py'' of
        Inl e \<Rightarrow> Inl e
      | Inr tmp \<Rightarrow>
          (case subprocess_run w (bandit_cmd w tmp) of
             Inl e \<Rightarrow>
               if except_matches e FileNotFoundError
               then Inr [\<lparr>file = filename_hint, line = 1, severity = ''LOW'',
                          tool = ''bandit'', rule = JStr ''INSTALL'',
                          message = JStr ''bandit not found. Did you install requirements?'',
                          suggestion = None\<rparr>]
               else Inl e
           | Inr out \<Rightarrow>
               (case bandit_try w filename_hint out of
                  (issues, None) \<Rightarrow> Inr issues
                | (issues, Some e) \<Rightarrow>
                    if except_matches e JSONDecodeError then Inr issues else Inl e)))"

fun complexity_loop :: "string \<Rightarrow> int \<Rightarrow> block list \<Rightarrow> Issue list \<Rightarrow> Issue list" where
  "complexity_loop filename_hint cc_threshold [] issues = issues"
| "complexity_loop filename_hint cc_threshold (b # bs) issues =
     (if complexity b \<ge> cc_threshold
      then complexity_loop filename_hint cc_threshold bs
             (issues @ [\<lparr>file = filename_hint, line = lineno b, severity = ''MEDIUM'',
                         tool = ''complexity'', rule = JStr ''CC'',
                         message = JStr (''Function '' @ [CHR 0x27] @ name b @ [CHR 0x27]
                                         @ '' is too complex (CC='' @ py_str_int (complexity b)
                                         @ '').''),
                         suggestion = None\<rparr>])
      else complexity_loop filename_hint cc_threshold bs issues)"

definition run_complexity :: "world \<Rightarrow> string \<Rightarrow> string \<Rightarrow> int \<Rightarrow> py_error + Issue list" where
  "run_complexity w code filename_hint cc_threshold =
     (case cc_visit w code of
        Inl e \<Rightarrow> Inl e
      | Inr blocks \<Rightarrow> Inr (complexity_loop filename_hint cc_threshold blocks []))"

section \<open>Diff filtering\<close>

text \<open>\<^verbatim>\<open>s.rfind(c)\<close>: the last index of \<open>c\<close>, or \<open>-1\<close>.\<close>

definition py_rfind :: "char \<Rightarrow> string \<Rightarrow> int" where
  "py_rfind c s =
     (if c \<in> set s
      then int (length s) - 1 - int (length (takeWhile (\<lambda>x. x \<noteq> c) (rev s)))
      else - 1)"

text \<open>\<^verbatim>\<open>os.path.basename\<close> of \<^verbatim>\<open>posixpath\<close>: what follows the last slash.\<close>

definition basename :: "string \<Rightarrow> string" where
  "basename p = drop (nat (py_rfind (CHR ''/'') p + 1)) p"

definition normalize_path :: "string \<Rightarrow> string" where
  "normalize_path p =
     basename (if prefix ''a/'' p \<or> prefix ''b/'' p then drop 2 p else p)"

fun hunk_loop :: "diff_line list \<Rightarrow> int set \<Rightarrow> int set" where
  "hunk_loop [] added = added"
| "hunk_loop (l # ls) added =
     (case target_line_no l of
        Some n \<Rightarrow> if is_added l then hunk_loop ls (insert n added) else hunk_loop ls added
      | None \<Rightarrow> hunk_loop ls added)"

fun file_loop :: "diff_line list list \<Rightarrow> int set \<Rightarrow> int set" where
  "file_loop [] added = added"
| "file_loop (h # hs) added = file_loop hs (hunk_loop h added)"

text \<open>
  The dictionary \<open>changed\<close> is an association list; the assignment
  \<^verbatim>\<open>changed[k] = added\<close> replaces the value of a key that is there.
\<close>

text \<open>The set \<open>added\<close> that the two inner loops build for one patched file.\<close>

definition added_lines :: "patched_file \<Rightarrow> int set" where
  "added_lines pf = file_loop (hunks pf) {}"

fun changed_loop ::
  "patched_file list \<Rightarrow> (string \<times> int set) list \<Rightarrow> (string \<times> int set) list" where
  "changed_loop [] changed = changed"
| "changed_loop (pf # ps) changed =
     (if is_removed_file pf then changed_loop ps changed
      else let added = added_lines pf
           in if added \<noteq> {}
              then changed_loop ps
                     (AList.update (normalize_path (target_file pf)) added changed)
              else changed_loop ps changed)"

definition changed_lines_from_diff ::
  "world \<Rightarrow> string \<Rightarrow> py_error + (string \<times> int set) list" where
  "changed_lines_from_diff w diff_text =
     (case PatchSet w diff_text of
        Inl e \<Rightarrow> Inl e
      | Inr ps \<Rightarrow> Inr (changed_loop ps []))"

definition filter_issues_to_changed_lines ::
  "world \<Rightarrow> Issue list \<Rightarrow> string \<Rightarrow> py_error + Issue list" where
  "filter_issues_to_changed_lines w issues diff_text =
     (case changed_lines_from_diff w diff_text of
        Inl e \<Rightarrow> Inl e
      | Inr changed \<Rightarrow>
          if changed = [] then Inr issues
          else Inr (filter
                 (\<lambda>i. case map_of changed (normalize_path (file i)) of
                         None \<Rightarrow> False
                       | Some added \<Rightarrow> line i \<in> added)
                 issues))"

section \<open>Suggestions, aggregation, rendering\<close>

definition friendly_suggestion :: "Issue \<Rightarrow> string option" where
  "friendly_suggestion issue =
     (if tool issue = ''complexity''
      then Some ''Extract smaller functions; reduce nesting/branches.''
      else if tool issue = ''bandit''
      then Some ''Avoid unsafe functions (e.g., eval); validate and sanitize inputs.''
      else if tool issue = ''flake8''
      then Some ''Follow PEP 8 (naming, spacing, line length) for readability.''
      else None)"

text \<open>
  \<^verbatim>\<open>run_complexity\<close> is called with its default threshold, 3. The \<^verbatim>\<open>debug\<close>
  flag only prints, and is left out.
\<close>

definition review_code_string :: "world \<Rightarrow> string \<Rightarrow> string \<Rightarrow> py_error + Issue list" where
  "review_code_string w code filename_hint =
     (case run_flake8 w code filename_hint of
        Inl e \<Rightarrow> Inl e
      | Inr f8 \<Rightarrow>
          (case run_bandit w code filename_hint of
             Inl e \<Rightarrow> Inl e
           | Inr bd \<Rightarrow>
               (case run_complexity w code filename_hint 3 of
                  Inl e \<Rightarrow> Inl e
                | Inr cx \<Rightarrow>
                    Inr (map (\<lambda>i. i\<lparr>suggestion := friendly_suggestion i\<rparr>)
                           (f8 @ bd @ cx)))))"

text \<open>
  What \<^verbatim>\<open>issues_to_markdown\<close> is given: a string, or a sequence whose entries are
  Issues or objects with no attribute \<^verbatim>\<open>tool\<close>.
\<close>

datatype entry = AnIssue Issue | NotAnIssue

datatype markdown_arg = PlainText string | Entries "entry list"

text \<open>The two characters outside ASCII that the renderer writes, in UTF-8.\<close>

definition check_mark :: string where
  "check_mark = [CHR 0xE2, CHR 0x9C, CHR 0x85]"

definition em_dash :: string where
  "em_dash = [CHR 0xE2, CHR 0x80, CHR 0x94]"

definition no_issues_message :: string where
  "no_issues_message = check_mark @ '' No issues found. Great job!''"

text \<open>\<^verbatim>\<open>str(v)\<close>, as an f-string formats a field.\<close>

definition py_str :: "world \<Rightarrow> json \<Rightarrow> string" where
  "py_str w v = (case v of JStr s \<Rightarrow> s | _ \<Rightarrow> py_repr w v)"

definition issue_line :: "world \<Rightarrow> Issue \<Rightarrow> string" where
  "issue_line w iss =
     (let tip = (case suggestion iss of
                   Some s \<Rightarrow> if s \<noteq> [] then '' Tip: '' @ s else []
                 | None \<Rightarrow> [])
      in ''- **'' @ py_upper (tool iss) @ '' '' @ py_str w (rule iss) @ ''** (''
         @ severity iss @ '') at '' @ [CHR 0x60] @ file iss @ '':'' @ py_str_int (line iss)
         @ [CHR 0x60] @ '' '' @ em_dash @ '' '' @ py_str w (message iss) @ tip)"

fun markdown_loop :: "world \<Rightarrow> entry list \<Rightarrow> string list \<Rightarrow> string list" where
  "markdown_loop w [] lines = lines"
| "markdown_loop w (NotAnIssue # es) lines = markdown_loop w es lines"
| "markdown_loop w (AnIssue iss # es) lines = markdown_loop w es (lines @ [issue_line w iss])"

fun py_join :: "string \<Rightarrow> string list \<Rightarrow> string" where
  "py_join sep [] = []"
| "py_join sep [x] = x"
| "py_join sep (x # y # ys) = x @ sep @ py_join sep (y # ys)"

definition issues_to_markdown :: "world \<Rightarrow> markdown_arg \<Rightarrow> string" where
  "issues_to_markdown w issues =
     (case issues of
        PlainText s \<Rightarrow> s
      | Entries es \<Rightarrow>
          if es = [] then no_issues_message
          else py_join [CHR 0x0A] (markdown_loop w es [''### Review Comments'']))"

section \<open>Sample runs\<close>

text \<open>
  Concrete environments on which the theorems below are instantiated. The style checker
  prints one finding and one line of chatter; the security checker prints two results,
  the second with no fields.
\<close>

definition sample_flake8_out :: string where
  "sample_flake8_out =
     ''2|10|E231|missing whitespace after comma'' @ [CHR 0x0A]
     @ ''1 file checked'' @ [CHR 0x0A]"

definition sample_bandit_out :: string where
  \<open>sample_bandit_out =
     ''{"results": [{"line_number": 3, "issue_severity": "high", "test_id": "B307", "issue_text": "Use of eval"}, {}]}''\<close>

definition sample_bandit_json :: json where
  "sample_bandit_json =
     JObj [(''results'',
            JArr [JObj [(''line_number'', JInt 3), (''issue_severity'', JStr ''high''),
                        (''test_id'', JStr ''B307''), (''issue_text'', JStr ''Use of eval'')],
                  JObj []])]"

text \<open>A diff that adds line 2 of \<^verbatim>\<open>snippet.py\<close>.\<close>

definition snippet_diff :: string where
  "snippet_diff =
     ''--- a/snippet.py'' @ [CHR 0x0A] @ ''+++ b/snippet.py'' @ [CHR 0x0A]
     @ ''@@ -1,2 +1,3 @@'' @ [CHR 0x0A] @ '' import os'' @ [CHR 0x0A]
     @ ''+import sys'' @ [CHR 0x0A] @ '' x = 1'' @ [CHR 0x0A]"

definition snippet_patch :: "patched_file list" where
  "snippet_patch =
     [\<lparr>is_removed_file = False, target_file = ''b/snippet.py'',
       hunks = [[\<lparr>is_added = False, target_line_no = Some 1\<rparr>,
                 \<lparr>is_added = True, target_line_no = Some 2\<rparr>,
                 \<lparr>is_added = False, target_line_no = Some 3\<rparr>]]\<rparr>]"

text \<open>A diff that only removes a line of \<^verbatim>\<open>snippet.py\<close>.\<close>

definition removal_diff :: string where
  "removal_diff =
     ''--- a/snippet.py'' @ [CHR 0x0A] @ ''+++ b/snippet.py'' @ [CHR 0x0A]
     @ ''@@ -1,3 +1,2 @@'' @ [CHR 0x0A] @ '' import os'' @ [CHR 0x0A]
     @ ''-import sys'' @ [CHR 0x0A] @ '' x = 1'' @ [CHR 0x0A]"

definition removal_patch :: "patched_file list" where
  "removal_patch =
     [\<lparr>is_removed_file = False, target_file = ''b/snippet.py'',
       hunks = [[\<lparr>is_added = False, target_line_no = Some 1\<rparr>,
                 \<lparr>is_added = False, target_line_no = None\<rparr>,
                 \<lparr>is_added = False, target_line_no = Some 2\<rparr>]]\<rparr>]"

text \<open>A diff of two files whose names end alike: it adds line 2 of the first, lines 5 and 6 of the second.\<close>

definition two_file_diff :: string where
  "two_file_diff =
     ''--- a/src/util.py'' @ [CHR 0x0A] @ ''+++ b/src/util.py'' @ [CHR 0x0A]
     @ ''@@ -1,0 +2 @@'' @ [CHR 0x0A] @ ''+import os'' @ [CHR 0x0A]
     @ ''--- a/tests/util.py'' @ [CHR 0x0A] @ ''+++ b/tests/util.py'' @ [CHR 0x0A]
     @ ''@@ -4,0 +5,2 @@'' @ [CHR 0x0A] @ ''+x = 1'' @ [CHR 0x0A] @ ''+y = 2'' @ [CHR 0x0A]"

definition two_file_patch :: "patched_file list" where
  "two_file_patch =
     [\<lparr>is_removed_file = False, target_file = ''b/src/util.py'',
       hunks = [[\<lparr>is_added = True, target_line_no = Some 2\<rparr>]]\<rparr>,
      \<lparr>is_removed_file = False, target_file = ''b/tests/util.py'',
       hunks = [[\<lparr>is_added = True, target_line_no = Some 5\<rparr>,
                 \<lparr>is_added = True, target_line_no = Some 6\<rparr>]]\<rparr>]"

definition sample_world :: world where
  "sample_world =
     \<lparr>sys_executable = ''/usr/bin/python3'',
      mkstemp = (\<lambda>sfx. Inr (''/tmp/tmpq1'' @ sfx)),
      write_text = (\<lambda>path txt. None),
      subprocess_run = (\<lambda>cmd. if take 2 (drop 1 cmd) = [''-m'', ''flake8'']
                              then Inr sample_flake8_out
                              else Inr sample_bandit_out),
      json_loads = (\<lambda>s. if s = sample_bandit_out then Inr sample_bandit_json
                          else if s = ''{}'' then Inr (JObj [])
                          else Inl JSONDecodeError),
      cc_visit = (\<lambda>code. Inr [\<lparr>name = ''small'', complexity = 2, lineno = 1\<rparr>,
                              \<lparr>name = ''branchy'', complexity = 3, lineno = 4\<rparr>]),
      PatchSet = (\<lambda>d. if d = snippet_diff then Inr snippet_patch
                        else if d = removal_diff then Inr removal_patch
                        else if d = two_file_diff then Inr two_file_patch
                        else Inr []),
      py_repr = (\<lambda>v. ''?'')\<rparr>"

text \<open>What the review of the sample run returns.\<close>

definition sample_issues :: "Issue list" where
  "sample_issues =
     [\<lparr>file = ''snippet.py'', line = 2, severity = ''LOW'', tool = ''flake8'',
       rule = JStr ''E231'', message = JStr ''missing whitespace after comma'',
       suggestion = Some ''Follow PEP 8 (naming, spacing, line length) for readability.''\<rparr>,
      \<lparr>file = ''snippet.py'', line = 3, severity = ''HIGH'', tool = ''bandit'',
       rule = JStr ''B307'', message = JStr ''Use of eval'',
       suggestion =
         Some ''Avoid unsafe functions (e.g., eval); validate and sanitize inputs.''\<rparr>,
      \<lparr>file = ''snippet.py'', line = 1, severity = ''LOW'', tool = ''bandit'',
       rule = JStr ''BXXX'', message = JStr ''Security issue'',
       suggestion =
         Some ''Avoid unsafe functions (e.g., eval); validate and sanitize inputs.''\<rparr>,
      \<lparr>file = ''snippet.py'', line = 4, severity = ''MEDIUM'', tool = ''complexity'',
       rule = JStr ''CC'',
       message = JStr (''Function '' @ [CHR 0x27] @ ''branchy'' @ [CHR 0x27]
                       @ '' is too complex (CC=3).''),
       suggestion = Some ''Extract smaller functions; reduce nesting/branches.''\<rparr>]"

text \<open>Neither analyzer can be started.\<close>

definition missing_world :: world where
  "missing_world = sample_world\<lparr>subprocess_run := (\<lambda>cmd. Inl FileNotFoundError)\<rparr>"

text \<open>Neither analyzer can be started, and the code given is not Python.\<close>

definition unparsable_world :: world where
  "unparsable_world = missing_world\<lparr>cc_visit := (\<lambda>code. Inl SyntaxError)\<rparr>"

text \<open>
  The interpreter starts, prints nothing on standard output and fails: so it does when
  the module of the analyzer is not installed.
\<close>

definition not_installed_world :: world where
  "not_installed_world = sample_world\<lparr>subprocess_run := (\<lambda>cmd. Inr [])\<rparr>"

text \<open>The interpreter is found, but may not be executed.\<close>

definition no_permission_world :: world where
  "no_permission_world = sample_world\<lparr>subprocess_run := (\<lambda>cmd. Inl PermissionError)\<rparr>"

text \<open>The security checker reports a line number that is not an integer.\<close>

definition bad_line_out :: string where
  \<open>bad_line_out = ''{"results": [{"line_number": "abc", "test_id": "B101"}]}''\<close>

definition bad_line_json :: json where
  "bad_line_json =
     JObj [(''results'',
            JArr [JObj [(''line_number'', JStr ''abc''), (''test_id'', JStr ''B101'')]])]"

definition bad_line_world :: world where
  "bad_line_world =
     sample_world
       \<lparr>subprocess_run := (\<lambda>cmd. if take 2 (drop 1 cmd) = [''-m'', ''flake8''] then Inr []
                               else Inr bad_line_out),
        json_loads := (\<lambda>s. if s = bad_line_out then Inr bad_line_json
                            else Inl JSONDecodeError)\<rparr>"

text \<open>The style checker reports a finding in row 0, as it does for a file it cannot read.\<close>

definition row_zero_world :: world where
  "row_zero_world =
     sample_world
       \<lparr>subprocess_run :=
          (\<lambda>cmd. if take 2 (drop 1 cmd) = [''-m'', ''flake8'']
                 then Inr (''0|1|E902|OSError'' @ [CHR 0x0A])
                 else Inr []),
        cc_visit := (\<lambda>code. Inr [])\<rparr>"

section \<open>Facts about the sample runs\<close>

lemma sample_world_fields:
  "sys_executable sample_world = ''/usr/bin/python3''"
  "mkstemp sample_world sfx = Inr (''/tmp/tmpq1'' @ sfx)"
  "write_text sample_world path txt = None"
  "subprocess_run sample_world cmd =
     (if take 2 (drop 1 cmd) = [''-m'', ''flake8''] then Inr sample_flake8_out
      else Inr sample_bandit_out)"
  "json_loads sample_world s =
     (if s = sample_bandit_out then Inr sample_bandit_json
      else if s = ''{}'' then Inr (JObj []) else Inl JSONDecodeError)"
  "cc_visit sample_world code =
     Inr [\<lparr>name = ''small'', complexity = 2, lineno = 1\<rparr>,
          \<lparr>name = ''branchy'', complexity = 3, lineno = 4\<rparr>]"
  "PatchSet sample_world d =
     (if d = snippet_diff then Inr snippet_patch
      else if d = removal_diff then Inr removal_patch
      else if d = two_file_diff then Inr two_file_patch else Inr [])"
  "py_repr sample_world v = ''?''"
  by (simp_all add: sample_world_def)

lemma py_str_int_small:
  "py_str_int 2 = ''2''" "py_str_int 3 = ''3''"
  by (simp_all add: py_str_int_def nat_digits.simps)

section \<open>The complexity adapter\<close>

lemma complexity_loop_eq:
  "complexity_loop h t bs acc =
     acc @ map (\<lambda>b. \<lparr>file = h, line = lineno b, severity = ''MEDIUM'',
                      tool = ''complexity'', rule = JStr ''CC'',
                      message = JStr (''Function '' @ [CHR 0x27] @ name b @ [CHR 0x27]
                                      @ '' is too complex (CC='' @ py_str_int (complexity b)
                                      @ '').''),
                      suggestion = None\<rparr>)
             (filter (\<lambda>b. t \<le> complexity b) bs)"
  by (induction bs arbitrary: acc) auto

text \<open>
  C7. When the complexity analysis returns, \<open>run_complexity\<close> returns one Issue for each
  block whose score is at least the threshold, in order, and none for any other block:
  severity MEDIUM, tool complexity, rule CC, the block's line, and a message with the
  block's name and score.
\<close>

theorem run_complexity_threshold:
  assumes "cc_visit w code = Inr blocks"
  shows "run_complexity w code filename_hint cc_threshold =
           Inr (map (\<lambda>b. \<lparr>file = filename_hint, line = lineno b, severity = ''MEDIUM'',
                            tool = ''complexity'', rule = JStr ''CC'',
                            message = JStr (''Function '' @ [CHR 0x27] @ name b @ [CHR 0x27]
                                            @ '' is too complex (CC=''
                                            @ py_str_int (complexity b) @ '').''),
                            suggestion = None\<rparr>)
                  (filter (\<lambda>b. complexity b \<ge> cc_threshold) blocks))"
  using assms by (simp add: run_complexity_def complexity_loop_eq)

theorem run_complexity_threshold_witness:
  "cc_visit sample_world ''code'' =
     Inr [\<lparr>name = ''small'', complexity = 2, lineno = 1\<rparr>,
          \<lparr>name = ''branchy'', complexity = 3, lineno = 4\<rparr>]
   \<and> run_complexity sample_world ''code'' ''snippet.py'' 3 =
       Inr [\<lparr>file = ''snippet.py'', line = 4, severity = ''MEDIUM'', tool = ''complexity'',
             rule = JStr ''CC'',
             message = JStr (''Function '' @ [CHR 0x27] @ ''branchy'' @ [CHR 0x27]
                             @ '' is too complex (CC=3).''),
             suggestion = None\<rparr>]"
proof -
  have blocks: "cc_visit sample_world ''code'' =
     Inr [\<lparr>name = ''small'', complexity = 2, lineno = 1\<rparr>,
          \<lparr>name = ''branchy'', complexity = 3, lineno = 4\<rparr>]"
    by (simp add: sample_world_fields)
  show ?thesis
    using run_complexity_threshold [OF blocks, of "''snippet.py''" 3] blocks
    by (simp add: py_str_int_small)
qed

section \<open>The style adapter\<close>

lemma py_int_str_error: "py_int_str s = Inl e \<Longrightarrow> e = ValueError"
  by (auto simp: py_int_str_def Let_def split: option.splits)

lemma flake8_line_error: "flake8_line h l = Inl e \<Longrightarrow> e = ValueError"
  by (auto simp: flake8_line_def split: list.splits sum.splits dest: py_int_str_error)

lemma flake8_line_Inr:
  assumes "flake8_line h l = Inr i"
  shows "tool i = ''flake8'' \<and> py_int_str (hd (py_split (CHR ''|'') 3 l)) = Inr (line i)"
  using assms by (auto simp: flake8_line_def split: list.splits sum.splits)

lemma flake8_loop_eq:
  "flake8_loop h ls acc =
     Inr (acc @ concat (map (\<lambda>l. case flake8_line h l of Inr i \<Rightarrow> [i] | Inl e \<Rightarrow> []) ls))"
proof (induction ls arbitrary: acc)
  case Nil
  show ?case by simp
next
  case (Cons l ls)
  show ?case
  proof (cases "flake8_line h l")
    case (Inl e)
    then have "e = ValueError" by (rule flake8_line_error)
    with Inl Cons show ?thesis by (simp add: except_matches_def)
  next
    case (Inr i)
    with Cons show ?thesis by simp
  qed
qed

lemma flake8_loop_member:
  assumes "flake8_loop h ls [] = Inr xs" and "i \<in> set xs"
  shows "\<exists>l\<in>set ls. flake8_line h l = Inr i"
proof -
  from assms obtain l where "l \<in> set ls"
    and "i \<in> set (case flake8_line h l of Inr i \<Rightarrow> [i] | Inl e \<Rightarrow> [])"
    by (auto simp: flake8_loop_eq)
  then show ?thesis by (cases "flake8_line h l") auto
qed

lemma run_flake8_member:
  assumes "run_flake8 w code h = Inr xs" and "i \<in> set xs"
  shows "tool i = ''flake8'' \<and>
         (line i = 1 \<or>
          (\<exists>tmp out l. write_temp_code w code ''.py'' = Inr tmp
             \<and> subprocess_run w (flake8_cmd w tmp) = Inr out
             \<and> l \<in> set (py_splitlines (py_strip out))
             \<and> py_int_str (hd (py_split (CHR ''|'') 3 l)) = Inr (line i)))"
proof (cases "write_temp_code w code ''.py''")
  case (Inl e)
  with assms show ?thesis by (simp add: run_flake8_def)
next
  case tmp: (Inr tmp)
  show ?thesis
  proof (cases "subprocess_run w (flake8_cmd w tmp)")
    case (Inl e)
    with assms tmp show ?thesis
      by (auto simp: run_flake8_def split: if_splits)
  next
    case out: (Inr out)
    with assms tmp have "flake8_loop h (py_splitlines (py_strip out)) [] = Inr xs"
      by (simp add: run_flake8_def)
    from flake8_loop_member [OF this assms(2)]
    obtain l where "l \<in> set (py_splitlines (py_strip out))" and "flake8_line h l = Inr i"
      by blast
    with flake8_line_Inr [of h l i] tmp out show ?thesis by blast
  qed
qed

section \<open>The security adapter\<close>

lemma py_int_error: "py_int v = Inl e \<Longrightarrow> e \<in> {ValueError, OverflowError, TypeError}"
  by (auto simp: py_int_def split: json.splits pyfloat.splits dest: py_int_str_error)

lemma bandit_record_Inr:
  "bandit_record h res = Inr i \<longleftrightarrow>
     (\<exists>kvs n sev. res = JObj kvs
        \<and> py_int (case map_of kvs ''line_number'' of None \<Rightarrow> JInt 1 | Some v \<Rightarrow> v) = Inr n
        \<and> py_upper_of (case map_of kvs ''issue_severity'' of
                          None \<Rightarrow> JStr ''LOW''
                        | Some s \<Rightarrow> if py_truthy s then s else JStr ''LOW'') = Inr sev
        \<and> i = \<lparr>file = h, line = n, severity = sev, tool = ''bandit'',
                rule = (case map_of kvs ''test_id'' of None \<Rightarrow> JStr ''BXXX'' | Some r \<Rightarrow> r),
                message = (case map_of kvs ''issue_text'' of
                             None \<Rightarrow> JStr ''Security issue'' | Some m \<Rightarrow> m),
                suggestion = None\<rparr>)"
  by (cases res) (auto simp: bandit_record_def py_get_def py_truthy_def split: sum.splits option.splits)

lemma bandit_record_error:
  "bandit_record h res = Inl e \<Longrightarrow> e \<in> {ValueError, OverflowError, TypeError, AttributeError}"
  by (auto simp: bandit_record_def py_get_def py_upper_of_def
           split: sum.splits json.splits if_splits dest: py_int_error)

lemma bandit_loop_None:
  "bandit_loop h items acc = (r, None) \<longleftrightarrow>
     (\<exists>new. map (bandit_record h) items = map Inr new \<and> r = acc @ new)"
proof (induction items arbitrary: acc)
  case Nil
  show ?case by auto
next
  case (Cons res rest)
  show ?case
  proof (cases "bandit_record h res")
    case (Inl e)
    then show ?thesis by auto
  next
    case (Inr i)
    show ?thesis
      by (auto simp: Inr Cons map_eq_Cons_conv)
  qed
qed

lemma bandit_loop_Some:
  "bandit_loop h items acc = (r, Some e) \<Longrightarrow> \<exists>res\<in>set items. bandit_record h res = Inl e"
  by (induction items arbitrary: acc) (auto split: sum.splits)

text \<open>With the process output, its parse and the list of results at hand,
  \<open>run_bandit\<close> is its loop.\<close>

lemma run_bandit_loop:
  assumes "write_temp_code w code ''.py'' = Inr tmp"
    and "subprocess_run w (bandit_cmd w tmp) = Inr out"
    and "json_loads w (if out = [] then ''{}'' else out) = Inr data"
    and "py_get data ''results'' (JArr []) = Inr results"
    and "py_iter results = Inr items"
  shows "run_bandit w code h =
           (case bandit_loop h items [] of
              (r, None) \<Rightarrow> Inr r
            | (r, Some e) \<Rightarrow> Inl e)"
proof (cases "bandit_loop h items []")
  case (Pair r eo)
  show ?thesis
  proof (cases eo)
    case None
    with Pair assms show ?thesis by (simp add: run_bandit_def bandit_try_def)
  next
    case (Some e)
    with Pair bandit_loop_Some [of h items "[]" r e] obtain res
      where "bandit_record h res = Inl e" by blast
    from bandit_record_error [OF this] have "\<not> except_matches e JSONDecodeError"
      by (auto simp: except_matches_def)
    with Pair Some assms show ?thesis by (simp add: run_bandit_def bandit_try_def)
  qed
qed

lemma run_bandit_member:
  assumes "run_bandit w code h = Inr xs" and "i \<in> set xs"
  shows "tool i = ''bandit'' \<and>
         (line i = 1 \<or>
          (\<exists>tmp out data results items kvs v.
             write_temp_code w code ''.py'' = Inr tmp
             \<and> subprocess_run w (bandit_cmd w tmp) = Inr out
             \<and> json_loads w (if out = [] then ''{}'' else out) = Inr data
             \<and> py_get data ''results'' (JArr []) = Inr results
             \<and> py_iter results = Inr items
             \<and> JObj kvs \<in> set items
             \<and> map_of kvs ''line_number'' = Some v
             \<and> py_int v = Inr (line i)))"
proof (cases "write_temp_code w code ''.py''")
  case (Inl e)
  with assms show ?thesis by (simp add: run_bandit_def)
next
  case tmp: (Inr tmp)
  show ?thesis
  proof (cases "subprocess_run w (bandit_cmd w tmp)")
    case (Inl e)
    with assms tmp show ?thesis
      by (auto simp: run_bandit_def split: if_splits)
  next
    case out: (Inr out)
    show ?thesis
    proof (cases "json_loads w (if out = [] then ''{}'' else out)")
      case (Inl e)
      with assms tmp out show ?thesis
        by (auto simp: run_bandit_def bandit_try_def split: if_splits)
    next
      case data: (Inr data)
      show ?thesis
      proof (cases "py_get data ''results'' (JArr [])")
        case (Inl e)
        with assms tmp out data show ?thesis
          by (auto simp: run_bandit_def bandit_try_def split: if_splits)
      next
        case results: (Inr results)
        show ?thesis
        proof (cases "py_iter results")
          case (Inl e)
          with assms tmp out data results show ?thesis
            by (auto simp: run_bandit_def bandit_try_def split: if_splits)
        next
          case items: (Inr items)
          from run_bandit_loop [OF tmp out data results items, of h] assms(1)
          have "bandit_loop h items [] = (xs, None)"
            by (auto split: prod.splits option.splits)
          then have "map (bandit_record h) items = map Inr xs"
            by (simp add: bandit_loop_None)
          with assms(2) obtain res where res: "res \<in> set items" "bandit_record h res = Inr i"
            by (metis (no_types, lifting) image_iff list.set_map)
          from res(2) obtain kvs where kvs: "res = JObj kvs" "tool i = ''bandit''"
            and n: "py_int (case map_of kvs ''line_number'' of None \<Rightarrow> JInt 1 | Some v \<Rightarrow> v)
                      = Inr (line i)"
            by (auto simp: bandit_record_Inr)
          show ?thesis
          proof (cases "map_of kvs ''line_number''")
            case None
            with n have "line i = 1" by (simp add: py_int_def)
            with kvs show ?thesis by simp
          next
            case (Some v)
            with n have "py_int v = Inr (line i)" by simp
            with tmp out data results items res(1) kvs Some show ?thesis by blast
          qed
        qed
      qed
    qed
  qed
qed

lemma run_complexity_member:
  assumes "run_complexity w code h t = Inr xs" and "i \<in> set xs"
  shows "tool i = ''complexity'' \<and>
         (\<exists>blocks b. cc_visit w code = Inr blocks \<and> b \<in> set blocks \<and> line i = lineno b)"
proof (cases "cc_visit w code")
  case (Inl e)
  with assms show ?thesis by (simp add: run_complexity_def)
next
  case (Inr blocks)
  with assms obtain b where "b \<in> set blocks" and "line i = lineno b"
    and "tool i = ''complexity''"
    by (auto simp: run_complexity_def complexity_loop_eq)
  with Inr show ?thesis by blast
qed

section \<open>The aggregator\<close>

lemma review_code_string_Inr:
  "review_code_string w code h = Inr issues \<longleftrightarrow>
     (\<exists>f8 bd cx. run_flake8 w code h = Inr f8 \<and> run_bandit w code h = Inr bd
        \<and> run_complexity w code h 3 = Inr cx
        \<and> issues = map (\<lambda>i. i\<lparr>suggestion := friendly_suggestion i\<rparr>) (f8 @ bd @ cx))"
  by (auto simp: review_code_string_def split: sum.splits)

lemma friendly_suggestion_update [simp]:
  "friendly_suggestion (i\<lparr>suggestion := s\<rparr>) = friendly_suggestion i"
  by (simp add: friendly_suggestion_def)

lemma review_member:
  assumes "review_code_string w code h = Inr issues" and "i \<in> set issues"
  shows "\<exists>f8 bd cx j. run_flake8 w code h = Inr f8 \<and> run_bandit w code h = Inr bd
           \<and> run_complexity w code h 3 = Inr cx \<and> j \<in> set f8 \<union> set bd \<union> set cx
           \<and> i = j\<lparr>suggestion := friendly_suggestion j\<rparr>"
  using assms by (auto simp: review_code_string_Inr)

text \<open>
  C10. Every Issue that \<open>review_code_string\<close> returns carries a suggestion: its tool is
  one of the three keys of \<open>friendly_suggestion\<close>, whose last branch is never taken.
\<close>

theorem review_suggestion_present:
  assumes "review_code_string w code filename_hint = Inr issues" and "i \<in> set issues"
  shows "tool i \<in> {''flake8'', ''bandit'', ''complexity''}
         \<and> suggestion i \<noteq> None \<and> suggestion i = friendly_suggestion i"
proof -
  from review_member [OF assms] obtain f8 bd cx j
    where f8: "run_flake8 w code filename_hint = Inr f8"
      and bd: "run_bandit w code filename_hint = Inr bd"
      and cx: "run_complexity w code filename_hint 3 = Inr cx"
      and j: "j \<in> set f8 \<union> set bd \<union> set cx"
      and i: "i = j\<lparr>suggestion := friendly_suggestion j\<rparr>"
    by blast
  from j consider "j \<in> set f8" | "j \<in> set bd" | "j \<in> set cx" by blast
  then have tool: "tool j \<in> {''flake8'', ''bandit'', ''complexity''}"
  proof cases
    case 1
    with run_flake8_member [OF f8] show ?thesis by simp
  next
    case 2
    with run_bandit_member [OF bd] show ?thesis by simp
  next
    case 3
    with run_complexity_member [OF cx] show ?thesis by simp
  qed
  then have "friendly_suggestion j \<noteq> None"
    by (auto simp: friendly_suggestion_def)
  with i tool show ?thesis by simp
qed

section \<open>The sample runs, evaluated\<close>

lemma write_temp_sample:
  "write_temp_code sample_world code ''.py'' = Inr ''/tmp/tmpq1.py''"
  by (simp add: write_temp_code_def sample_world_fields)

lemma py_upper_LOW: "py_upper ''LOW'' = ''LOW''"
  by (simp add: py_upper_def upper_char_def)

lemma run_flake8_sample:
  "run_flake8 sample_world ''code'' ''snippet.py'' =
     Inr [\<lparr>file = ''snippet.py'', line = 2, severity = ''LOW'', tool = ''flake8'',
           rule = JStr ''E231'', message = JStr ''missing whitespace after comma'',
           suggestion = None\<rparr>]"
  by (simp add: run_flake8_def write_temp_sample sample_world_fields flake8_cmd_def
      sample_flake8_out_def py_strip_def is_space_def py_splitlines_def is_linebreak_def
      flake8_line_def numeral_3_eq_3 py_int_str_def is_int_blank_def is_digit_def digit_value_def
      except_matches_def)

lemma run_bandit_sample:
  "run_bandit sample_world ''code'' ''snippet.py'' =
     Inr [\<lparr>file = ''snippet.py'', line = 3, severity = ''HIGH'', tool = ''bandit'',
           rule = JStr ''B307'', message = JStr ''Use of eval'', suggestion = None\<rparr>,
          \<lparr>file = ''snippet.py'', line = 1, severity = ''LOW'', tool = ''bandit'',
           rule = JStr ''BXXX'', message = JStr ''Security issue'', suggestion = None\<rparr>]"
  by (simp add: run_bandit_def write_temp_sample sample_world_fields bandit_cmd_def
      sample_bandit_out_def sample_bandit_json_def bandit_try_def py_get_def py_iter_def
      bandit_record_def py_int_def py_truthy_def py_upper_of_def py_upper_def upper_char_def)

lemma run_complexity_sample:
  "run_complexity sample_world ''code'' ''snippet.py'' 3 =
     Inr [\<lparr>file = ''snippet.py'', line = 4, severity = ''MEDIUM'', tool = ''complexity'',
           rule = JStr ''CC'',
           message = JStr (''Function '' @ [CHR 0x27] @ ''branchy'' @ [CHR 0x27]
                           @ '' is too complex (CC=3).''),
           suggestion = None\<rparr>]"
  by (simp add: run_complexity_def sample_world_fields py_str_int_small)

lemma review_sample:
  "review_code_string sample_world ''code'' ''snippet.py'' = Inr sample_issues"
  by (simp add: review_code_string_def run_flake8_sample run_bandit_sample
      run_complexity_sample friendly_suggestion_def sample_issues_def)

lemma missing_world_fields:
  "sys_executable missing_world = ''/usr/bin/python3''"
  "subprocess_run missing_world cmd = Inl FileNotFoundError"
  "cc_visit missing_world code =
     Inr [\<lparr>name = ''small'', complexity = 2, lineno = 1\<rparr>,
          \<lparr>name = ''branchy'', complexity = 3, lineno = 4\<rparr>]"
  by (simp_all add: missing_world_def sample_world_def)

lemma write_temp_missing:
  "write_temp_code missing_world code ''.py'' = Inr ''/tmp/tmpq1.py''"
  by (simp add: write_temp_code_def missing_world_def sample_world_def)

lemma row_zero_world_fields:
  "sys_executable row_zero_world = ''/usr/bin/python3''"
  "subprocess_run row_zero_world cmd =
     (if take 2 (drop 1 cmd) = [''-m'', ''flake8'']
      then Inr (''0|1|E902|OSError'' @ [CHR 0x0A]) else Inr [])"
  "json_loads row_zero_world s =
     (if s = sample_bandit_out then Inr sample_bandit_json
      else if s = ''{}'' then Inr (JObj []) else Inl JSONDecodeError)"
  "cc_visit row_zero_world code = Inr []"
  by (simp_all add: row_zero_world_def sample_world_def)

lemma write_temp_row_zero:
  "write_temp_code row_zero_world code ''.py'' = Inr ''/tmp/tmpq1.py''"
  by (simp add: write_temp_code_def row_zero_world_def sample_world_def)

lemma run_flake8_row_zero:
  "run_flake8 row_zero_world ''code'' ''snippet.py'' =
     Inr [\<lparr>file = ''snippet.py'', line = 0, severity = ''LOW'', tool = ''flake8'',
           rule = JStr ''E902'', message = JStr ''OSError'', suggestion = None\<rparr>]"
  by (simp add: run_flake8_def write_temp_row_zero row_zero_world_fields flake8_cmd_def
      py_strip_def is_space_def py_splitlines_def is_linebreak_def
      flake8_line_def numeral_3_eq_3 py_int_str_def is_int_blank_def is_digit_def digit_value_def
      except_matches_def)

lemma run_bandit_row_zero:
  "run_bandit row_zero_world ''code'' ''snippet.py'' = Inr []"
  by (simp add: run_bandit_def write_temp_row_zero row_zero_world_fields bandit_cmd_def
      sample_bandit_out_def bandit_try_def py_get_def py_iter_def)

lemma run_complexity_row_zero:
  "run_complexity row_zero_world ''code'' ''snippet.py'' 3 = Inr []"
  by (simp add: run_complexity_def row_zero_world_fields)

lemma bad_line_world_fields:
  "sys_executable bad_line_world = ''/usr/bin/python3''"
  "subprocess_run bad_line_world cmd =
     (if take 2 (drop 1 cmd) = [''-m'', ''flake8''] then Inr [] else Inr bad_line_out)"
  "json_loads bad_line_world s =
     (if s = bad_line_out then Inr bad_line_json else Inl JSONDecodeError)"
  by (simp_all add: bad_line_world_def sample_world_def)

lemma write_temp_bad_line:
  "write_temp_code bad_line_world code ''.py'' = Inr ''/tmp/tmpq1.py''"
  by (simp add: write_temp_code_def bad_line_world_def sample_world_def)

theorem review_suggestion_present_witness:
  "review_code_string sample_world ''code'' ''snippet.py'' = Inr sample_issues
   \<and> sample_issues ! 2 \<in> set sample_issues
   \<and> suggestion (sample_issues ! 2)
       = Some ''Avoid unsafe functions (e.g., eval); validate and sanitize inputs.''
   \<and> suggestion (sample_issues ! 2) = friendly_suggestion (sample_issues ! 2)"
proof -
  have mem: "sample_issues ! 2 \<in> set sample_issues"
    by (simp add: sample_issues_def)
  from review_suggestion_present [OF review_sample mem] review_sample mem
  show ?thesis by (simp add: sample_issues_def)
qed


text \<open>
  C3 as stated fails: when the style checker prints a finding in row 0, the Issue
  returned has line 0.
\<close>

theorem review_line_zero:
  "review_code_string row_zero_world ''code'' ''snippet.py'' =
     Inr [\<lparr>file = ''snippet.py'', line = 0, severity = ''LOW'', tool = ''flake8'',
           rule = JStr ''E902'', message = JStr ''OSError'',
           suggestion = Some ''Follow PEP 8 (naming, spacing, line length) for readability.''\<rparr>]
   \<and> \<not> 1 \<le> line \<lparr>file = ''snippet.py'', line = 0, severity = ''LOW'', tool = ''flake8'',
           rule = JStr ''E902'', message = JStr ''OSError'',
           suggestion = Some ''Follow PEP 8 (naming, spacing, line length) for readability.''\<rparr>"
  by (simp add: review_code_string_def run_flake8_row_zero run_bandit_row_zero
      run_complexity_row_zero friendly_suggestion_def)

section \<open>Missing analyzers\<close>

lemma run_flake8_missing:
  assumes "write_temp_code w code ''.py'' = Inr tmp"
    and "subprocess_run w (flake8_cmd w tmp) = Inl FileNotFoundError"
  shows "run_flake8 w code h =
           Inr [\<lparr>file = h, line = 1, severity = ''LOW'', tool = ''flake8'',
                 rule = JStr ''INSTALL'',
                 message = JStr ''flake8 not found. Did you install requirements?'',
                 suggestion = None\<rparr>]"
  using assms by (simp add: run_flake8_def except_matches_def)

lemma run_bandit_missing:
  assumes "write_temp_code w code ''.py'' = Inr tmp"
    and "subprocess_run w (bandit_cmd w tmp) = Inl FileNotFoundError"
  shows "run_bandit w code h =
           Inr [\<lparr>file = h, line = 1, severity = ''LOW'', tool = ''bandit'',
                 rule = JStr ''INSTALL'',
                 message = JStr ''bandit not found. Did you install requirements?'',
                 suggestion = None\<rparr>]"
  using assms by (simp add: run_bandit_def except_matches_def)

section \<open>The fields of a security Issue\<close>

lemma map_eq_map_Inr_iff:
  "map f xs = map Inr ys \<longleftrightarrow>
     length ys = length xs \<and> (\<forall>k<length xs. f (xs ! k) = Inr (ys ! k))"
  by (auto simp: list_eq_iff_nth_eq)

lemma py_upper_of_LOW: "py_upper_of (JStr ''LOW'') = Inr sev \<longleftrightarrow> sev = ''LOW''"
  by (auto simp: py_upper_of_def py_upper_LOW)

lemma bandit_record_fields:
  "bandit_record h res = Inr i \<longleftrightarrow>
     (\<exists>kvs n sev. res = JObj kvs
        \<and> (case map_of kvs ''line_number'' of None \<Rightarrow> n = 1 | Some v \<Rightarrow> py_int v = Inr n)
        \<and> (case map_of kvs ''issue_severity'' of
              None \<Rightarrow> sev = ''LOW''
            | Some s \<Rightarrow> if py_truthy s then py_upper_of s = Inr sev else sev = ''LOW'')
        \<and> i = \<lparr>file = h, line = n, severity = sev, tool = ''bandit'',
                rule = (case map_of kvs ''test_id'' of None \<Rightarrow> JStr ''BXXX'' | Some r \<Rightarrow> r),
                message = (case map_of kvs ''issue_text'' of
                             None \<Rightarrow> JStr ''Security issue'' | Some m \<Rightarrow> m),
                suggestion = None\<rparr>)"
proof -
  have ln: "py_int (case map_of kvs ''line_number'' of None \<Rightarrow> JInt 1 | Some v \<Rightarrow> v) = Inr n
      \<longleftrightarrow> (case map_of kvs ''line_number'' of None \<Rightarrow> n = 1 | Some v \<Rightarrow> py_int v = Inr n)"
    for kvs n
    by (auto simp: py_int_def split: option.splits)
  have sv: "py_upper_of (case map_of kvs ''issue_severity'' of
                          None \<Rightarrow> JStr ''LOW''
                        | Some s \<Rightarrow> if py_truthy s then s else JStr ''LOW'') = Inr sev
      \<longleftrightarrow> (case map_of kvs ''issue_severity'' of
              None \<Rightarrow> sev = ''LOW''
            | Some s \<Rightarrow> if py_truthy s then py_upper_of s = Inr sev else sev = ''LOW'')"
    for kvs sev
    by (auto simp: py_upper_of_LOW split: option.splits)
  show ?thesis unfolding bandit_record_Inr ln sv ..
qed

text \<open>
  C1, as the code has it. Let the security checker run and print JSON whose
  \<^verbatim>\<open>results\<close> are \<open>items\<close>. Then \<open>run_bandit\<close> returns a list exactly when every
  result is an object whose line number is absent or converts with \<^verbatim>\<open>int()\<close> and
  whose severity is absent, false or a string; the list has one Issue per result, in
  order, with line the converted line number (1 when absent), severity the reported one
  in upper case (LOW when absent or false), rule the reported test id (BXXX when absent)
  and message the reported text (a fixed phrase when absent). A line number that is there
  and does not convert is no default: \<open>run_bandit\<close> raises.
\<close>

theorem run_bandit_issue_fields:
  assumes "write_temp_code w code ''.py'' = Inr tmp"
    and "subprocess_run w (bandit_cmd w tmp) = Inr out"
    and "json_loads w (if out = [] then ''{}'' else out) = Inr data"
    and "py_get data ''results'' (JArr []) = Inr results"
    and "py_iter results = Inr items"
  shows "(run_bandit w code filename_hint = Inr issues \<longleftrightarrow>
            length issues = length items \<and>
            (\<forall>k<length items. \<exists>kvs n sev.
               items ! k = JObj kvs
               \<and> (case map_of kvs ''line_number'' of
                     None \<Rightarrow> n = 1
                   | Some v \<Rightarrow> py_int v = Inr n)
               \<and> (case map_of kvs ''issue_severity'' of
                     None \<Rightarrow> sev = ''LOW''
                   | Some s \<Rightarrow> if py_truthy s then py_upper_of s = Inr sev else sev = ''LOW'')
               \<and> issues ! k =
                   \<lparr>file = filename_hint, line = n, severity = sev, tool = ''bandit'',
                    rule = (case map_of kvs ''test_id'' of
                              None \<Rightarrow> JStr ''BXXX'' | Some r \<Rightarrow> r),
                    message = (case map_of kvs ''issue_text'' of
                                 None \<Rightarrow> JStr ''Security issue'' | Some m \<Rightarrow> m),
                    suggestion = None\<rparr>))
       \<and> ((\<exists>kvs v e. JObj kvs \<in> set items \<and> map_of kvs ''line_number'' = Some v
                      \<and> py_int v = Inl e) \<longrightarrow>
          (\<exists>e. run_bandit w code filename_hint = Inl e))"
proof (intro conjI impI)
  have "run_bandit w code filename_hint = Inr issues
          \<longleftrightarrow> bandit_loop filename_hint items [] = (issues, None)"
    unfolding run_bandit_loop [OF assms]
    by (auto split: prod.splits option.splits)
  also have "\<dots> \<longleftrightarrow> map (bandit_record filename_hint) items = map Inr issues"
    by (auto simp: bandit_loop_None)
  finally show "run_bandit w code filename_hint = Inr issues \<longleftrightarrow>
            length issues = length items \<and>
            (\<forall>k<length items. \<exists>kvs n sev.
               items ! k = JObj kvs
               \<and> (case map_of kvs ''line_number'' of
                     None \<Rightarrow> n = 1
                   | Some v \<Rightarrow> py_int v = Inr n)
               \<and> (case map_of kvs ''issue_severity'' of
                     None \<Rightarrow> sev = ''LOW''
                   | Some s \<Rightarrow> if py_truthy s then py_upper_of s = Inr sev else sev = ''LOW'')
               \<and> issues ! k =
                   \<lparr>file = filename_hint, line = n, severity = sev, tool = ''bandit'',
                    rule = (case map_of kvs ''test_id'' of
                              None \<Rightarrow> JStr ''BXXX'' | Some r \<Rightarrow> r),
                    message = (case map_of kvs ''issue_text'' of
                                 None \<Rightarrow> JStr ''Security issue'' | Some m \<Rightarrow> m),
                    suggestion = None\<rparr>)"
    unfolding map_eq_map_Inr_iff bandit_record_fields .
next
  assume "\<exists>kvs v e. JObj kvs \<in> set items \<and> map_of kvs ''line_number'' = Some v
            \<and> py_int v = Inl e"
  then obtain kvs v e where bad: "JObj kvs \<in> set items"
    "map_of kvs ''line_number'' = Some v" "py_int v = Inl e"
    by blast
  have "bandit_record filename_hint (JObj kvs) \<noteq> Inr i" for i
    using bad(2,3) by (auto simp: bandit_record_fields)
  with bad(1) have "map (bandit_record filename_hint) items \<noteq> map Inr new" for new
    by (metis (no_types, lifting) in_set_conv_nth length_map nth_map)
  then have "\<nexists>r. bandit_loop filename_hint items [] = (r, None)"
    by (simp add: bandit_loop_None)
  then show "\<exists>e. run_bandit w code filename_hint = Inl e"
    unfolding run_bandit_loop [OF assms]
    by (cases "bandit_loop filename_hint items []") (auto split: option.splits)
qed

theorem run_bandit_issue_fields_witness:
  "write_temp_code sample_world ''code'' ''.py'' = Inr ''/tmp/tmpq1.py''
   \<and> subprocess_run sample_world (bandit_cmd sample_world ''/tmp/tmpq1.py'')
       = Inr sample_bandit_out
   \<and> json_loads sample_world (if sample_bandit_out = [] then ''{}'' else sample_bandit_out)
       = Inr sample_bandit_json
   \<and> py_get sample_bandit_json ''results'' (JArr []) =
       Inr (JArr [JObj [(''line_number'', JInt 3), (''issue_severity'', JStr ''high''),
                        (''test_id'', JStr ''B307''), (''issue_text'', JStr ''Use of eval'')],
                  JObj []])
   \<and> py_iter (JArr [JObj [(''line_number'', JInt 3), (''issue_severity'', JStr ''high''),
                          (''test_id'', JStr ''B307''), (''issue_text'', JStr ''Use of eval'')],
                    JObj []]) =
       Inr [JObj [(''line_number'', JInt 3), (''issue_severity'', JStr ''high''),
                  (''test_id'', JStr ''B307''), (''issue_text'', JStr ''Use of eval'')],
            JObj []]
   \<and> run_bandit sample_world ''code'' ''snippet.py'' =
       Inr [\<lparr>file = ''snippet.py'', line = 3, severity = ''HIGH'', tool = ''bandit'',
             rule = JStr ''B307'', message = JStr ''Use of eval'', suggestion = None\<rparr>,
            \<lparr>file = ''snippet.py'', line = 1, severity = ''LOW'', tool = ''bandit'',
             rule = JStr ''BXXX'', message = JStr ''Security issue'', suggestion = None\<rparr>]"
proof -
  have out: "subprocess_run sample_world (bandit_cmd sample_world ''/tmp/tmpq1.py'')
               = Inr sample_bandit_out"
    by (simp add: sample_world_fields bandit_cmd_def)
  have data: "json_loads sample_world
                (if sample_bandit_out = [] then ''{}'' else sample_bandit_out)
              = Inr sample_bandit_json"
  proof -
    have "sample_bandit_out \<noteq> []" by (simp add: sample_bandit_out_def)
    then show ?thesis by (simp add: sample_world_fields)
  qed
  have results: "py_get sample_bandit_json ''results'' (JArr []) =
       Inr (JArr [JObj [(''line_number'', JInt 3), (''issue_severity'', JStr ''high''),
                        (''test_id'', JStr ''B307''), (''issue_text'', JStr ''Use of eval'')],
                  JObj []])"
    by (simp add: sample_bandit_json_def py_get_def)
  have items: "py_iter (JArr [JObj [(''line_number'', JInt 3),
                          (''issue_severity'', JStr ''high''),
                          (''test_id'', JStr ''B307''), (''issue_text'', JStr ''Use of eval'')],
                    JObj []]) =
       Inr [JObj [(''line_number'', JInt 3), (''issue_severity'', JStr ''high''),
                  (''test_id'', JStr ''B307''), (''issue_text'', JStr ''Use of eval'')],
            JObj []]"
    by (simp add: py_iter_def)
  have high: "py_upper_of (JStr ''high'') = Inr ''HIGH''"
    by (simp add: py_upper_of_def py_upper_def upper_char_def)
  have "run_bandit sample_world ''code'' ''snippet.py'' =
       Inr [\<lparr>file = ''snippet.py'', line = 3, severity = ''HIGH'', tool = ''bandit'',
             rule = JStr ''B307'', message = JStr ''Use of eval'', suggestion = None\<rparr>,
            \<lparr>file = ''snippet.py'', line = 1, severity = ''LOW'', tool = ''bandit'',
             rule = JStr ''BXXX'', message = JStr ''Security issue'', suggestion = None\<rparr>]"
    using run_bandit_issue_fields [OF write_temp_sample out data results items,
        of "''code''" "''snippet.py''"
           "[\<lparr>file = ''snippet.py'', line = 3, severity = ''HIGH'', tool = ''bandit'',
              rule = JStr ''B307'', message = JStr ''Use of eval'', suggestion = None\<rparr>,
             \<lparr>file = ''snippet.py'', line = 1, severity = ''LOW'', tool = ''bandit'',
              rule = JStr ''BXXX'', message = JStr ''Security issue'', suggestion = None\<rparr>]"]
    by (simp add: less_Suc_eq numeral_2_eq_2 all_conj_distrib py_int_def py_truthy_def high)
  with write_temp_sample [of "''code''"] out data results items show ?thesis
    by (intro conjI)
qed

text \<open>
  C1 as stated fails: a result whose line number is the string \<^verbatim>\<open>abc\<close> yields no
  Issue with line 1; \<^verbatim>\<open>int()\<close> raises, and so do \<open>run_bandit\<close> and the review.
\<close>

theorem run_bandit_invalid_line_raises:
  "subprocess_run bad_line_world (bandit_cmd bad_line_world ''/tmp/tmpq1.py'')
     = Inr bad_line_out
   \<and> json_loads bad_line_world bad_line_out = Inr bad_line_json
   \<and> run_bandit bad_line_world ''code'' ''snippet.py'' = Inl ValueError
   \<and> review_code_string bad_line_world ''code'' ''snippet.py'' = Inl ValueError"
proof -
  have f8: "run_flake8 bad_line_world ''code'' ''snippet.py'' = Inr []"
    by (simp add: run_flake8_def write_temp_bad_line bad_line_world_fields flake8_cmd_def
        py_strip_def py_splitlines_def)
  have bd: "run_bandit bad_line_world ''code'' ''snippet.py'' = Inl ValueError"
    by (simp add: run_bandit_def write_temp_bad_line bad_line_world_fields bandit_cmd_def
        bad_line_out_def bad_line_json_def bandit_try_def py_get_def py_iter_def
        bandit_record_def py_int_def py_int_str_def is_int_blank_def py_strip_def is_space_def
        is_digit_def
        except_matches_def)
  show ?thesis
    using f8 bd
    by (simp add: review_code_string_def bad_line_world_fields bandit_cmd_def)
qed

section \<open>The changed-line map\<close>

lemma hunk_loop_eq:
  "hunk_loop ls A = A \<union> {n. \<exists>l\<in>set ls. is_added l \<and> target_line_no l = Some n}"
  by (induction ls arbitrary: A) (auto split: option.splits)

lemma file_loop_eq:
  "file_loop hs A =
     A \<union> {n. \<exists>h\<in>set hs. \<exists>l\<in>set h. is_added l \<and> target_line_no l = Some n}"
  by (induction hs arbitrary: A) (auto simp: hunk_loop_eq)

lemma added_lines_eq:
  "added_lines pf =
     {n. \<exists>h\<in>set (hunks pf). \<exists>l\<in>set h. is_added l \<and> target_line_no l = Some n}"
  by (simp add: added_lines_def file_loop_eq)

lemma added_lines_empty_iff:
  "added_lines pf = {} \<longleftrightarrow>
     (\<forall>h\<in>set (hunks pf). \<forall>l\<in>set h. \<not> is_added l \<or> target_line_no l = None)"
proof
  assume empty: "added_lines pf = {}"
  show "\<forall>h\<in>set (hunks pf). \<forall>l\<in>set h. \<not> is_added l \<or> target_line_no l = None"
  proof (intro ballI)
    fix h l
    assume "h \<in> set (hunks pf)" and "l \<in> set h"
    with empty show "\<not> is_added l \<or> target_line_no l = None"
      by (cases "target_line_no l") (auto simp: added_lines_eq)
  qed
next
  assume "\<forall>h\<in>set (hunks pf). \<forall>l\<in>set h. \<not> is_added l \<or> target_line_no l = None"
  then show "added_lines pf = {}"
    by (auto simp: added_lines_eq)
qed

lemma changed_loop_append:
  "changed_loop (xs @ ys) acc = changed_loop ys (changed_loop xs acc)"
  by (induction xs arbitrary: acc) (simp_all add: Let_def)

lemma changed_loop_Nil_iff:
  "changed_loop ps acc = [] \<longleftrightarrow>
     acc = [] \<and> (\<forall>pf\<in>set ps. is_removed_file pf \<or> added_lines pf = {})"
  by (induction ps arbitrary: acc) (auto simp: Let_def)

text \<open>Files that are removed, add nothing, or have another name leave the entry of \<open>k\<close> alone.\<close>

lemma changed_loop_other:
  assumes "\<forall>g\<in>set ps. is_removed_file g \<or> added_lines g = {}
             \<or> normalize_path (target_file g) \<noteq> k"
  shows "map_of (changed_loop ps acc) k = map_of acc k"
  using assms by (induction ps arbitrary: acc) (auto simp: Let_def update_conv')

text \<open>The entry of \<open>k\<close> is the set of the last file that contributes to it.\<close>

lemma changed_loop_last:
  assumes "\<not> is_removed_file pf" and "added_lines pf \<noteq> {}"
    and "normalize_path (target_file pf) = k"
    and "\<forall>g\<in>set post. is_removed_file g \<or> added_lines g = {}
           \<or> normalize_path (target_file g) \<noteq> k"
  shows "map_of (changed_loop (pre @ pf # post) acc) k = Some (added_lines pf)"
proof -
  have "changed_loop (pre @ pf # post) acc =
          changed_loop post (AList.update k (added_lines pf) (changed_loop pre acc))"
    using assms(1-3) by (simp add: changed_loop_append Let_def)
  with changed_loop_other [OF assms(4)] show ?thesis
    by (simp add: update_conv')
qed

section \<open>Path normalization\<close>



section \<open>The sample diffs, evaluated\<close>

lemma normalize_path_samples:
  "normalize_path ''b/snippet.py'' = ''snippet.py''"
  "normalize_path ''snippet.py'' = ''snippet.py''"
  "normalize_path ''b/src/util.py'' = ''util.py''"
  "normalize_path ''b/tests/util.py'' = ''util.py''"
  "normalize_path ''src/util.py'' = ''util.py''"
  by (simp_all add: normalize_path_def basename_def py_rfind_def)

lemma PatchSet_samples:
  "PatchSet sample_world snippet_diff = Inr snippet_patch"
  "PatchSet sample_world removal_diff = Inr removal_patch"
  "PatchSet sample_world two_file_diff = Inr two_file_patch"
  by (simp_all add: sample_world_fields snippet_diff_def removal_diff_def two_file_diff_def)

lemma changed_lines_snippet:
  "changed_lines_from_diff sample_world snippet_diff = Inr [(''snippet.py'', {2})]"
  by (simp add: changed_lines_from_diff_def PatchSet_samples snippet_patch_def
      added_lines_def normalize_path_samples)

lemma filter_sample_snippet:
  "filter_issues_to_changed_lines sample_world sample_issues snippet_diff =
     Inr [\<lparr>file = ''snippet.py'', line = 2, severity = ''LOW'', tool = ''flake8'',
           rule = JStr ''E231'', message = JStr ''missing whitespace after comma'',
           suggestion =
             Some ''Follow PEP 8 (naming, spacing, line length) for readability.''\<rparr>]"
  by (simp add: filter_issues_to_changed_lines_def changed_lines_snippet sample_issues_def
      normalize_path_samples)

section \<open>Filtering\<close>

text \<open>
  C4. Filtering the result of a filtering again, with the same diff, changes nothing;
  when the diff cannot be parsed, both raise the parser's exception.
\<close>

theorem filter_twice:
  "(case filter_issues_to_changed_lines w issues diff_text of
      Inl e \<Rightarrow> Inl e
    | Inr kept \<Rightarrow> filter_issues_to_changed_lines w kept diff_text)
   = filter_issues_to_changed_lines w issues diff_text"
proof (cases "changed_lines_from_diff w diff_text")
  case (Inl e)
  then show ?thesis by (simp add: filter_issues_to_changed_lines_def)
next
  case (Inr changed)
  then show ?thesis
    by (cases "changed = []") (simp_all add: filter_issues_to_changed_lines_def)
qed

theorem filter_twice_witness:
  "filter_issues_to_changed_lines sample_world sample_issues snippet_diff =
     Inr [sample_issues ! 0]
   \<and> filter_issues_to_changed_lines sample_world [sample_issues ! 0] snippet_diff =
     Inr [sample_issues ! 0]"
proof -
  have once: "filter_issues_to_changed_lines sample_world sample_issues snippet_diff =
     Inr [sample_issues ! 0]"
    by (simp add: filter_sample_snippet) (simp add: sample_issues_def)
  from filter_twice [where w = sample_world and issues = sample_issues
      and diff_text = snippet_diff] once
  show ?thesis by simp
qed

text \<open>
  C5. When the changed-line map is empty, the filter returns its input unchanged. The
  map is empty exactly when every patched file of the diff is a removed file or has no
  added line with a target line number: so it is for a diff with no file at all, and for
  one that only removes lines.
\<close>

theorem filter_empty_map_noop:
  "(changed_lines_from_diff w diff_text = Inr [] \<longrightarrow>
      filter_issues_to_changed_lines w issues diff_text = Inr issues)
   \<and> (changed_lines_from_diff w diff_text = Inr [] \<longleftrightarrow>
        (\<exists>ps. PatchSet w diff_text = Inr ps
           \<and> (\<forall>pf\<in>set ps. is_removed_file pf
                 \<or> (\<forall>h\<in>set (hunks pf). \<forall>l\<in>set h.
                       \<not> is_added l \<or> target_line_no l = None))))"
proof (intro conjI impI)
  assume "changed_lines_from_diff w diff_text = Inr []"
  then show "filter_issues_to_changed_lines w issues diff_text = Inr issues"
    by (simp add: filter_issues_to_changed_lines_def)
next
  show "changed_lines_from_diff w diff_text = Inr [] \<longleftrightarrow>
        (\<exists>ps. PatchSet w diff_text = Inr ps
           \<and> (\<forall>pf\<in>set ps. is_removed_file pf
                 \<or> (\<forall>h\<in>set (hunks pf). \<forall>l\<in>set h.
                       \<not> is_added l \<or> target_line_no l = None)))"
  proof (cases "PatchSet w diff_text")
    case (Inl e)
    then show ?thesis by (simp add: changed_lines_from_diff_def)
  next
    case (Inr ps)
    then show ?thesis
      by (simp add: changed_lines_from_diff_def changed_loop_Nil_iff added_lines_empty_iff)
  qed
qed

theorem filter_empty_map_noop_witness:
  "PatchSet sample_world removal_diff = Inr removal_patch
   \<and> changed_lines_from_diff sample_world removal_diff = Inr []
   \<and> filter_issues_to_changed_lines sample_world sample_issues removal_diff
       = Inr sample_issues
   \<and> PatchSet sample_world [] = Inr []
   \<and> filter_issues_to_changed_lines sample_world sample_issues [] = Inr sample_issues"
proof -
  have removal: "\<exists>ps. PatchSet sample_world removal_diff = Inr ps
           \<and> (\<forall>pf\<in>set ps. is_removed_file pf
                 \<or> (\<forall>h\<in>set (hunks pf). \<forall>l\<in>set h.
                       \<not> is_added l \<or> target_line_no l = None))"
    by (simp add: PatchSet_samples removal_patch_def)
  have none: "PatchSet sample_world [] = Inr []"
    by (simp add: sample_world_fields snippet_diff_def removal_diff_def two_file_diff_def)
  then have empty: "\<exists>ps. PatchSet sample_world [] = Inr ps
           \<and> (\<forall>pf\<in>set ps. is_removed_file pf
                 \<or> (\<forall>h\<in>set (hunks pf). \<forall>l\<in>set h.
                       \<not> is_added l \<or> target_line_no l = None))"
    by simp
  from filter_empty_map_noop [where w = sample_world and diff_text = removal_diff
      and issues = sample_issues] removal
  have a: "changed_lines_from_diff sample_world removal_diff = Inr []"
    "filter_issues_to_changed_lines sample_world sample_issues removal_diff
       = Inr sample_issues"
    by blast+
  from filter_empty_map_noop [where w = sample_world and diff_text = "[]"
      and issues = sample_issues] empty
  have b: "filter_issues_to_changed_lines sample_world sample_issues [] = Inr sample_issues"
    by blast
  from a b none PatchSet_samples(2) show ?thesis by (intro conjI)
qed



text \<open>
  C9. Let two patched files of a diff, neither removed and both with added lines,
  normalize to the same name \<open>k\<close>, and let no file after the second take the entry of
  \<open>k\<close>. Then the changed-line map holds for \<open>k\<close> the added lines of the second file
  alone, and of the Issues whose file normalizes to \<open>k\<close> the filter keeps exactly those
  with a line added in the second file: a line that only the first file adds is dropped.
\<close>

theorem changed_lines_later_file_wins:
  assumes "PatchSet w diff_text = Inr (pre @ f1 # mid @ f2 # post)"
    and "\<not> is_removed_file f1" and "added_lines f1 \<noteq> {}"
    and "\<not> is_removed_file f2" and "added_lines f2 \<noteq> {}"
    and "normalize_path (target_file f1) = k" and "normalize_path (target_file f2) = k"
    and "\<forall>g\<in>set post. is_removed_file g \<or> added_lines g = {}
           \<or> normalize_path (target_file g) \<noteq> k"
  shows "\<exists>changed kept.
           changed_lines_from_diff w diff_text = Inr changed
           \<and> map_of changed k = Some (added_lines f2)
           \<and> filter_issues_to_changed_lines w issues diff_text = Inr kept
           \<and> (\<forall>i\<in>set issues. normalize_path (file i) = k \<longrightarrow>
                 (i \<in> set kept \<longleftrightarrow> line i \<in> added_lines f2))"
proof -
  let ?changed = "changed_loop (pre @ f1 # mid @ f2 # post) []"
  let ?kept = "filter (\<lambda>i. case map_of ?changed (normalize_path (file i)) of
                               None \<Rightarrow> False
                             | Some added \<Rightarrow> line i \<in> added) issues"
  have "map_of (changed_loop ((pre @ f1 # mid) @ f2 # post) []) k = Some (added_lines f2)"
    by (rule changed_loop_last [OF assms(4,5,7,8)])
  then have entry: "map_of ?changed k = Some (added_lines f2)"
    by simp
  then have nonempty: "?changed \<noteq> []"
    by auto
  from assms(1) have ch: "changed_lines_from_diff w diff_text = Inr ?changed"
    by (simp add: changed_lines_from_diff_def)
  with nonempty have kept: "filter_issues_to_changed_lines w issues diff_text = Inr ?kept"
    by (simp add: filter_issues_to_changed_lines_def)
  from entry have "\<forall>i\<in>set issues. normalize_path (file i) = k \<longrightarrow>
                 (i \<in> set ?kept \<longleftrightarrow> line i \<in> added_lines f2)"
    by simp
  with ch entry kept show ?thesis by blast
qed

theorem changed_lines_later_file_wins_witness:
  "PatchSet sample_world two_file_diff = Inr ([] @ hd two_file_patch # [] @ last two_file_patch # [])
   \<and> added_lines (hd two_file_patch) = {2}
   \<and> added_lines (last two_file_patch) = {5, 6}
   \<and> normalize_path (target_file (hd two_file_patch)) = ''util.py''
   \<and> normalize_path (target_file (last two_file_patch)) = ''util.py''
   \<and> changed_lines_from_diff sample_world two_file_diff = Inr [(''util.py'', {5, 6})]
   \<and> (\<exists>changed kept.
         changed_lines_from_diff sample_world two_file_diff = Inr changed
         \<and> map_of changed ''util.py'' = Some {5, 6}
         \<and> filter_issues_to_changed_lines sample_world
             [\<lparr>file = ''src/util.py'', line = 2, severity = ''LOW'', tool = ''flake8'',
               rule = JStr ''E231'', message = JStr ''missing whitespace'',
               suggestion = None\<rparr>] two_file_diff = Inr kept
         \<and> \<lparr>file = ''src/util.py'', line = 2, severity = ''LOW'', tool = ''flake8'',
               rule = JStr ''E231'', message = JStr ''missing whitespace'',
               suggestion = None\<rparr> \<notin> set kept)"
proof -
  have ps: "PatchSet sample_world two_file_diff =
              Inr ([] @ hd two_file_patch # [] @ last two_file_patch # [])"
    by (simp add: PatchSet_samples) (simp add: two_file_patch_def)
  have f: "\<not> is_removed_file (hd two_file_patch)" "\<not> is_removed_file (last two_file_patch)"
    "normalize_path (target_file (hd two_file_patch)) = ''util.py''"
    "normalize_path (target_file (last two_file_patch)) = ''util.py''"
    by (simp_all add: two_file_patch_def normalize_path_samples)
  have added: "added_lines (hd two_file_patch) = {2}"
    "added_lines (last two_file_patch) = {5, 6}"
    by (auto simp: two_file_patch_def added_lines_def)
  have ne: "added_lines (hd two_file_patch) \<noteq> {}" "added_lines (last two_file_patch) \<noteq> {}"
    unfolding added by simp_all
  have post: "\<forall>g\<in>set []. is_removed_file g \<or> added_lines g = {}
                \<or> normalize_path (target_file g) \<noteq> ''util.py''"
    by simp
  have whole: "changed_lines_from_diff sample_world two_file_diff = Inr [(''util.py'', {5, 6})]"
    by (auto simp: changed_lines_from_diff_def PatchSet_samples two_file_patch_def
        added_lines_def normalize_path_samples)
  from changed_lines_later_file_wins [OF ps f(1) ne(1) f(2) ne(2) f(3) f(4) post,
      where issues = "[\<lparr>file = ''src/util.py'', line = 2, severity = ''LOW'',
               tool = ''flake8'', rule = JStr ''E231'', message = JStr ''missing whitespace'',
               suggestion = None\<rparr>]"]
  have "\<exists>changed kept.
         changed_lines_from_diff sample_world two_file_diff = Inr changed
         \<and> map_of changed ''util.py'' = Some {5, 6}
         \<and> filter_issues_to_changed_lines sample_world
             [\<lparr>file = ''src/util.py'', line = 2, severity = ''LOW'', tool = ''flake8'',
               rule = JStr ''E231'', message = JStr ''missing whitespace'',
               suggestion = None\<rparr>] two_file_diff = Inr kept
         \<and> \<lparr>file = ''src/util.py'', line = 2, severity = ''LOW'', tool = ''flake8'',
               rule = JStr ''E231'', message = JStr ''missing whitespace'',
               suggestion = None\<rparr> \<notin> set kept"
    by (simp add: added normalize_path_samples)
  with ps added f(3,4) whole show ?thesis by (intro conjI)
qed

section \<open>Rendering\<close>

lemma sublist_mid: "ys = ps @ xs @ ss \<Longrightarrow> sublist xs ys"
  by (auto simp: sublist_def)

lemma markdown_one_issue:
  "issues_to_markdown w (Entries [AnIssue i]) =
     ''### Review Comments'' @ [CHR 0x0A] @ issue_line w i"
  by (simp add: issues_to_markdown_def)

text \<open>
  C8. \<open>issues_to_markdown\<close> returns a plain string as it is, and for no issues the
  fixed message. For one Issue with a suggestion the output is the heading and one line,
  which contains the tool in upper case, the rule, the severity, the file and the line
  joined by a colon, the message and the suggestion; a suggestion that is not empty
  follows the word Tip.
\<close>

theorem issues_to_markdown_render:
  "issues_to_markdown w (PlainText s) = s
   \<and> issues_to_markdown w (Entries []) = check_mark @ '' No issues found. Great job!''
   \<and> (suggestion i = Some tip \<longrightarrow>
        sublist (py_upper (tool i)) (issues_to_markdown w (Entries [AnIssue i]))
        \<and> sublist (py_str w (rule i)) (issues_to_markdown w (Entries [AnIssue i]))
        \<and> sublist (severity i) (issues_to_markdown w (Entries [AnIssue i]))
        \<and> sublist (file i @ '':'' @ py_str_int (line i))
             (issues_to_markdown w (Entries [AnIssue i]))
        \<and> sublist (py_str w (message i)) (issues_to_markdown w (Entries [AnIssue i]))
        \<and> sublist tip (issues_to_markdown w (Entries [AnIssue i]))
        \<and> (tip \<noteq> [] \<longrightarrow>
             issues_to_markdown w (Entries [AnIssue i]) =
               ''### Review Comments'' @ [CHR 0x0A] @ ''- **'' @ py_upper (tool i) @ '' ''
               @ py_str w (rule i) @ ''** ('' @ severity i @ '') at '' @ [CHR 0x60]
               @ file i @ '':'' @ py_str_int (line i) @ [CHR 0x60] @ '' '' @ em_dash
               @ '' '' @ py_str w (message i) @ '' Tip: '' @ tip))"
proof (intro conjI impI)
  show "issues_to_markdown w (PlainText s) = s"
    by (simp add: issues_to_markdown_def)
  show "issues_to_markdown w (Entries []) = check_mark @ '' No issues found. Great job!''"
    by (simp add: issues_to_markdown_def no_issues_message_def)
next
  assume tip: "suggestion i = Some tip"
  define t where "t = (if tip \<noteq> [] then '' Tip: '' @ tip else [])"
  have out: "issues_to_markdown w (Entries [AnIssue i]) =
      ''### Review Comments'' @ [CHR 0x0A] @ ''- **'' @ py_upper (tool i) @ '' ''
      @ py_str w (rule i) @ ''** ('' @ severity i @ '') at '' @ [CHR 0x60]
      @ file i @ '':'' @ py_str_int (line i) @ [CHR 0x60] @ '' '' @ em_dash
      @ '' '' @ py_str w (message i) @ t"
    using tip by (simp add: markdown_one_issue issue_line_def t_def)
  show "sublist (py_upper (tool i)) (issues_to_markdown w (Entries [AnIssue i]))"
    by (rule sublist_mid [where ps = "''### Review Comments'' @ [CHR 0x0A] @ ''- **''"
          and ss = "'' '' @ py_str w (rule i) @ ''** ('' @ severity i @ '') at ''
            @ [CHR 0x60] @ file i @ '':'' @ py_str_int (line i) @ [CHR 0x60] @ '' ''
            @ em_dash @ '' '' @ py_str w (message i) @ t"])
       (simp add: out)
  show "sublist (py_str w (rule i)) (issues_to_markdown w (Entries [AnIssue i]))"
    by (rule sublist_mid [where ps = "''### Review Comments'' @ [CHR 0x0A] @ ''- **''
            @ py_upper (tool i) @ '' ''"
          and ss = "''** ('' @ severity i @ '') at ''
            @ [CHR 0x60] @ file i @ '':'' @ py_str_int (line i) @ [CHR 0x60] @ '' ''
            @ em_dash @ '' '' @ py_str w (message i) @ t"])
       (simp add: out)
  show "sublist (severity i) (issues_to_markdown w (Entries [AnIssue i]))"
    by (rule sublist_mid [where ps = "''### Review Comments'' @ [CHR 0x0A] @ ''- **''
            @ py_upper (tool i) @ '' '' @ py_str w (rule i) @ ''** (''"
          and ss = "'') at ''
            @ [CHR 0x60] @ file i @ '':'' @ py_str_int (line i) @ [CHR 0x60] @ '' ''
            @ em_dash @ '' '' @ py_str w (message i) @ t"])
       (simp add: out)
  show "sublist (file i @ '':'' @ py_str_int (line i))
          (issues_to_markdown w (Entries [AnIssue i]))"
    by (rule sublist_mid [where ps = "''### Review Comments'' @ [CHR 0x0A] @ ''- **''
            @ py_upper (tool i) @ '' '' @ py_str w (rule i) @ ''** ('' @ severity i
            @ '') at '' @ [CHR 0x60]"
          and ss = "[CHR 0x60] @ '' '' @ em_dash @ '' '' @ py_str w (message i) @ t"])
       (simp add: out)
  show "sublist (py_str w (message i)) (issues_to_markdown w (Entries [AnIssue i]))"
    by (rule sublist_mid [where ps = "''### Review Comments'' @ [CHR 0x0A] @ ''- **''
            @ py_upper (tool i) @ '' '' @ py_str w (rule i) @ ''** ('' @ severity i
            @ '') at '' @ [CHR 0x60] @ file i @ '':'' @ py_str_int (line i) @ [CHR 0x60]
            @ '' '' @ em_dash @ '' ''"
          and ss = t])
       (simp add: out)
  show "sublist tip (issues_to_markdown w (Entries [AnIssue i]))"
  proof (cases "tip = []")
    case True
    then show ?thesis by simp
  next
    case False
    then have "t = '' Tip: '' @ tip" by (simp add: t_def)
    then show ?thesis
      by (intro sublist_mid [where ps = "''### Review Comments'' @ [CHR 0x0A] @ ''- **''
            @ py_upper (tool i) @ '' '' @ py_str w (rule i) @ ''** ('' @ severity i
            @ '') at '' @ [CHR 0x60] @ file i @ '':'' @ py_str_int (line i) @ [CHR 0x60]
            @ '' '' @ em_dash @ '' '' @ py_str w (message i) @ '' Tip: ''"
          and ss = "[]"])
         (simp add: out)
  qed
  show "issues_to_markdown w (Entries [AnIssue i]) =
               ''### Review Comments'' @ [CHR 0x0A] @ ''- **'' @ py_upper (tool i) @ '' ''
               @ py_str w (rule i) @ ''** ('' @ severity i @ '') at '' @ [CHR 0x60]
               @ file i @ '':'' @ py_str_int (line i) @ [CHR 0x60] @ '' '' @ em_dash
               @ '' '' @ py_str w (message i) @ '' Tip: '' @ tip"
    if "tip \<noteq> []"
    using that by (simp add: out t_def)
qed

theorem issues_to_markdown_render_witness:
  "suggestion (sample_issues ! 1)
     = Some ''Avoid unsafe functions (e.g., eval); validate and sanitize inputs.''
   \<and> issues_to_markdown sample_world (Entries [AnIssue (sample_issues ! 1)]) =
       ''### Review Comments'' @ [CHR 0x0A]
       @ ''- **BANDIT B307** (HIGH) at '' @ [CHR 0x60] @ ''snippet.py:3'' @ [CHR 0x60]
       @ '' '' @ em_dash @ '' Use of eval''
       @ '' Tip: Avoid unsafe functions (e.g., eval); validate and sanitize inputs.''
   \<and> sublist ''BANDIT''
         (issues_to_markdown sample_world (Entries [AnIssue (sample_issues ! 1)]))
   \<and> sublist ''snippet.py:3''
         (issues_to_markdown sample_world (Entries [AnIssue (sample_issues ! 1)]))"
proof -
  have tip: "suggestion (sample_issues ! 1)
     = Some ''Avoid unsafe functions (e.g., eval); validate and sanitize inputs.''"
    by (simp add: sample_issues_def)
  have fields: "py_upper (tool (sample_issues ! 1)) = ''BANDIT''"
    "py_str sample_world (rule (sample_issues ! 1)) = ''B307''"
    "severity (sample_issues ! 1) = ''HIGH''"
    "file (sample_issues ! 1) = ''snippet.py''"
    "py_str_int (line (sample_issues ! 1)) = ''3''"
    "py_str sample_world (message (sample_issues ! 1)) = ''Use of eval''"
    by (simp_all add: sample_issues_def py_upper_def upper_char_def py_str_def
        py_str_int_small)
  have ne: "''Avoid unsafe functions (e.g., eval); validate and sanitize inputs.'' \<noteq> []"
    by simp
  note render = issues_to_markdown_render [where w = sample_world
      and i = "sample_issues ! 1"
      and tip = "''Avoid unsafe functions (e.g., eval); validate and sanitize inputs.''"
      and s = "[]"]
  from render tip
  have tool: "sublist (py_upper (tool (sample_issues ! 1)))
                (issues_to_markdown sample_world (Entries [AnIssue (sample_issues ! 1)]))"
    by blast
  from render tip
  have place: "sublist (file (sample_issues ! 1) @ '':'' @ py_str_int (line (sample_issues ! 1)))
                (issues_to_markdown sample_world (Entries [AnIssue (sample_issues ! 1)]))"
    by blast
  from render tip ne
  have "issues_to_markdown sample_world (Entries [AnIssue (sample_issues ! 1)]) =
      ''### Review Comments'' @ [CHR 0x0A] @ ''- **'' @ py_upper (tool (sample_issues ! 1))
      @ '' '' @ py_str sample_world (rule (sample_issues ! 1)) @ ''** (''
      @ severity (sample_issues ! 1) @ '') at '' @ [CHR 0x60]
      @ file (sample_issues ! 1) @ '':'' @ py_str_int (line (sample_issues ! 1))
      @ [CHR 0x60] @ '' '' @ em_dash
      @ '' '' @ py_str sample_world (message (sample_issues ! 1)) @ '' Tip: ''
      @ ''Avoid unsafe functions (e.g., eval); validate and sanitize inputs.''"
    by blast
  then have whole: "issues_to_markdown sample_world (Entries [AnIssue (sample_issues ! 1)]) =
       ''### Review Comments'' @ [CHR 0x0A]
       @ ''- **BANDIT B307** (HIGH) at '' @ [CHR 0x60] @ ''snippet.py:3'' @ [CHR 0x60]
       @ '' '' @ em_dash @ '' Use of eval''
       @ '' Tip: Avoid unsafe functions (e.g., eval); validate and sanitize inputs.''"
    unfolding fields by simp
  from tool have t: "sublist ''BANDIT''
         (issues_to_markdown sample_world (Entries [AnIssue (sample_issues ! 1)]))"
    unfolding fields .
  from place have p: "sublist ''snippet.py:3''
         (issues_to_markdown sample_world (Entries [AnIssue (sample_issues ! 1)]))"
    unfolding fields by simp
  from tip whole t p show ?thesis by (intro conjI)
qed

section \<open>Where an Issue comes from\<close>

lemma flake8_line_fields:
  "flake8_line h l = Inr i \<longleftrightarrow>
     (\<exists>row col c t n. py_split (CHR ''|'') 3 l = [row, col, c, t] \<and> py_int_str row = Inr n
        \<and> i = \<lparr>file = h, line = n, severity = ''LOW'', tool = ''flake8'',
                rule = JStr c, message = JStr t, suggestion = None\<rparr>)"
  by (auto simp: flake8_line_def split: list.splits sum.splits)

lemma run_flake8_origin:
  assumes "run_flake8 w code h = Inr xs" and "j \<in> set xs"
  shows "tool j = ''flake8'' \<and>
         (\<exists>tmp. write_temp_code w code ''.py'' = Inr tmp \<and>
            (subprocess_run w (flake8_cmd w tmp) = Inl FileNotFoundError
               \<and> rule j = JStr ''INSTALL'' \<and> line j = 1
             \<or> (\<exists>out l row col c t.
                   subprocess_run w (flake8_cmd w tmp) = Inr out
                   \<and> l \<in> set (py_splitlines (py_strip out))
                   \<and> py_split (CHR ''|'') 3 l = [row, col, c, t]
                   \<and> py_int_str row = Inr (line j)
                   \<and> rule j = JStr c \<and> message j = JStr t)))"
proof (cases "write_temp_code w code ''.py''")
  case (Inl e)
  with assms show ?thesis by (simp add: run_flake8_def)
next
  case tmp: (Inr tmp)
  show ?thesis
  proof (cases "subprocess_run w (flake8_cmd w tmp)")
    case (Inl e)
    with assms tmp show ?thesis
      by (auto simp: run_flake8_def except_matches_def split: if_splits)
  next
    case out: (Inr out)
    with assms tmp have "flake8_loop h (py_splitlines (py_strip out)) [] = Inr xs"
      by (simp add: run_flake8_def)
    from flake8_loop_member [OF this assms(2)]
    obtain l where l: "l \<in> set (py_splitlines (py_strip out))" and "flake8_line h l = Inr j"
      by blast
    then obtain row col c t n where "py_split (CHR ''|'') 3 l = [row, col, c, t]"
      and "py_int_str row = Inr n"
      and "j = \<lparr>file = h, line = n, severity = ''LOW'', tool = ''flake8'',
                rule = JStr c, message = JStr t, suggestion = None\<rparr>"
      by (auto simp: flake8_line_fields)
    with tmp out l show ?thesis by auto
  qed
qed

lemma run_bandit_origin:
  assumes "run_bandit w code h = Inr xs" and "j \<in> set xs"
  shows "tool j = ''bandit'' \<and>
         (\<exists>tmp. write_temp_code w code ''.py'' = Inr tmp \<and>
            (subprocess_run w (bandit_cmd w tmp) = Inl FileNotFoundError
               \<and> rule j = JStr ''INSTALL'' \<and> line j = 1
             \<or> (\<exists>out data results items kvs.
                   subprocess_run w (bandit_cmd w tmp) = Inr out
                   \<and> json_loads w (if out = [] then ''{}'' else out) = Inr data
                   \<and> py_get data ''results'' (JArr []) = Inr results
                   \<and> py_iter results = Inr items
                   \<and> JObj kvs \<in> set items
                   \<and> (case map_of kvs ''line_number'' of
                         None \<Rightarrow> line j = 1
                       | Some v \<Rightarrow> py_int v = Inr (line j))
                   \<and> rule j = (case map_of kvs ''test_id'' of
                                 None \<Rightarrow> JStr ''BXXX'' | Some r \<Rightarrow> r)
                   \<and> message j = (case map_of kvs ''issue_text'' of
                                    None \<Rightarrow> JStr ''Security issue'' | Some m \<Rightarrow> m))))"
proof (cases "write_temp_code w code ''.py''")
  case (Inl e)
  with assms show ?thesis by (simp add: run_bandit_def)
next
  case tmp: (Inr tmp)
  show ?thesis
  proof (cases "subprocess_run w (bandit_cmd w tmp)")
    case (Inl e)
    with assms tmp show ?thesis
      by (auto simp: run_bandit_def except_matches_def split: if_splits)
  next
    case out: (Inr out)
    show ?thesis
    proof (cases "json_loads w (if out = [] then ''{}'' else out)")
      case (Inl e)
      with assms tmp out show ?thesis
        by (auto simp: run_bandit_def bandit_try_def split: if_splits)
    next
      case data: (Inr data)
      show ?thesis
      proof (cases "py_get data ''results'' (JArr [])")
        case (Inl e)
        with assms tmp out data show ?thesis
          by (auto simp: run_bandit_def bandit_try_def split: if_splits)
      next
        case results: (Inr results)
        show ?thesis
        proof (cases "py_iter results")
          case (Inl e)
          with assms tmp out data results show ?thesis
            by (auto simp: run_bandit_def bandit_try_def split: if_splits)
        next
          case items: (Inr items)
          from run_bandit_loop [OF tmp out data results items, of h] assms(1)
          have "bandit_loop h items [] = (xs, None)"
            by (auto split: prod.splits option.splits)
          then have "map (bandit_record h) items = map Inr xs"
            by (simp add: bandit_loop_None)
          with assms(2) obtain res where res: "res \<in> set items" "bandit_record h res = Inr j"
            by (metis (no_types, lifting) image_iff list.set_map)
          from res(2) obtain kvs n sev where kvs: "res = JObj kvs"
            and n: "case map_of kvs ''line_number'' of
                      None \<Rightarrow> n = 1 | Some v \<Rightarrow> py_int v = Inr n"
            and j: "j = \<lparr>file = h, line = n, severity = sev, tool = ''bandit'',
                rule = (case map_of kvs ''test_id'' of None \<Rightarrow> JStr ''BXXX'' | Some r \<Rightarrow> r),
                message = (case map_of kvs ''issue_text'' of
                             None \<Rightarrow> JStr ''Security issue'' | Some m \<Rightarrow> m),
                suggestion = None\<rparr>"
            unfolding bandit_record_fields by blast
          from j have f: "tool j = ''bandit''" "line j = n"
            "rule j = (case map_of kvs ''test_id'' of None \<Rightarrow> JStr ''BXXX'' | Some r \<Rightarrow> r)"
            "message j = (case map_of kvs ''issue_text'' of
                             None \<Rightarrow> JStr ''Security issue'' | Some m \<Rightarrow> m)"
            by simp_all
          from n f(2) have "case map_of kvs ''line_number'' of
                      None \<Rightarrow> line j = 1 | Some v \<Rightarrow> py_int v = Inr (line j)"
            by (cases "map_of kvs ''line_number''") simp_all
          with tmp out data results items res(1) kvs f show ?thesis by blast
        qed
      qed
    qed
  qed
qed

lemma run_complexity_origin:
  assumes "run_complexity w code h t = Inr xs" and "j \<in> set xs"
  shows "tool j = ''complexity'' \<and>
         (\<exists>blocks b. cc_visit w code = Inr blocks \<and> b \<in> set blocks \<and> t \<le> complexity b
            \<and> line j = lineno b
            \<and> message j = JStr (''Function '' @ [CHR 0x27] @ name b @ [CHR 0x27]
                                 @ '' is too complex (CC='' @ py_str_int (complexity b)
                                 @ '').''))"
proof (cases "cc_visit w code")
  case (Inl e)
  with assms show ?thesis by (simp add: run_complexity_def)
next
  case (Inr blocks)
  with assms obtain b where "b \<in> set blocks" and "t \<le> complexity b"
    and "j = \<lparr>file = h, line = lineno b, severity = ''MEDIUM'',
                tool = ''complexity'', rule = JStr ''CC'',
                message = JStr (''Function '' @ [CHR 0x27] @ name b @ [CHR 0x27]
                                @ '' is too complex (CC='' @ py_str_int (complexity b)
                                @ '').''),
                suggestion = None\<rparr>"
    by (auto simp: run_complexity_def complexity_loop_eq)
  with Inr show ?thesis by auto
qed

text \<open>
  C3, as the code has it. Every Issue that \<open>review_code_string\<close> returns has one of the
  tools flake8 (style), bandit (security) and complexity, and its line is the very number
  that its tool reported for it. A flake8 Issue is the INSTALL Issue of a checker that
  could not be started, with line 1, or it comes from a line of four fields that the
  checker printed: its line is the integer of the first field, its rule and message the
  last two. A bandit Issue is the INSTALL Issue, with line 1, or it comes from a result
  of the checker's JSON: its line is the integer of that result's line number, or 1 when
  the result has none. A complexity Issue comes from a block with score at least 3, and
  its line is the block's. No lower bound is checked anywhere: the line is at least 1
  exactly when the reported number is.
\<close>

theorem review_issue_line_and_tool:
  assumes "review_code_string w code filename_hint = Inr issues" and "i \<in> set issues"
  shows "tool i = ''flake8''
           \<and> (\<exists>tmp. write_temp_code w code ''.py'' = Inr tmp \<and>
                 (subprocess_run w (flake8_cmd w tmp) = Inl FileNotFoundError
                    \<and> rule i = JStr ''INSTALL'' \<and> line i = 1
                  \<or> (\<exists>out l row col c t.
                        subprocess_run w (flake8_cmd w tmp) = Inr out
                        \<and> l \<in> set (py_splitlines (py_strip out))
                        \<and> py_split (CHR ''|'') 3 l = [row, col, c, t]
                        \<and> py_int_str row = Inr (line i)
                        \<and> rule i = JStr c \<and> message i = JStr t)))
         \<or> tool i = ''bandit''
           \<and> (\<exists>tmp. write_temp_code w code ''.py'' = Inr tmp \<and>
                 (subprocess_run w (bandit_cmd w tmp) = Inl FileNotFoundError
                    \<and> rule i = JStr ''INSTALL'' \<and> line i = 1
                  \<or> (\<exists>out data results items kvs.
                        subprocess_run w (bandit_cmd w tmp) = Inr out
                        \<and> json_loads w (if out = [] then ''{}'' else out) = Inr data
                        \<and> py_get data ''results'' (JArr []) = Inr results
                        \<and> py_iter results = Inr items
                        \<and> JObj kvs \<in> set items
                        \<and> (case map_of kvs ''line_number'' of
                              None \<Rightarrow> line i = 1
                            | Some v \<Rightarrow> py_int v = Inr (line i))
                        \<and> rule i = (case map_of kvs ''test_id'' of
                                      None \<Rightarrow> JStr ''BXXX'' | Some r \<Rightarrow> r)
                        \<and> message i = (case map_of kvs ''issue_text'' of
                                         None \<Rightarrow> JStr ''Security issue''
                                       | Some m \<Rightarrow> m))))
         \<or> tool i = ''complexity''
           \<and> (\<exists>blocks b. cc_visit w code = Inr blocks \<and> b \<in> set blocks
                 \<and> 3 \<le> complexity b \<and> line i = lineno b
                 \<and> message i = JStr (''Function '' @ [CHR 0x27] @ name b @ [CHR 0x27]
                                      @ '' is too complex (CC=''
                                      @ py_str_int (complexity b) @ '').''))"
proof -
  from review_member [OF assms] obtain f8 bd cx j
    where f8: "run_flake8 w code filename_hint = Inr f8"
      and bd: "run_bandit w code filename_hint = Inr bd"
      and cx: "run_complexity w code filename_hint 3 = Inr cx"
      and j: "j \<in> set f8 \<union> set bd \<union> set cx"
      and i: "i = j\<lparr>suggestion := friendly_suggestion j\<rparr>"
    by blast
  from i have same: "tool i = tool j" "line i = line j" "rule i = rule j"
    "message i = message j"
    by simp_all
  from j consider "j \<in> set f8" | "j \<in> set bd" | "j \<in> set cx" by blast
  then show ?thesis
  proof cases
    case 1
    from run_flake8_origin [OF f8 1] show ?thesis unfolding same by blast
  next
    case 2
    from run_bandit_origin [OF bd 2] show ?thesis unfolding same by blast
  next
    case 3
    from run_complexity_origin [OF cx 3] show ?thesis unfolding same by blast
  qed
qed

theorem review_issue_line_and_tool_witness:
  "review_code_string sample_world ''code'' ''snippet.py'' = Inr sample_issues
   \<and> sample_issues ! 1 \<in> set sample_issues
   \<and> tool (sample_issues ! 1) = ''bandit''
   \<and> line (sample_issues ! 1) = 3
   \<and> (\<exists>tmp out data results items kvs.
         write_temp_code sample_world ''code'' ''.py'' = Inr tmp
         \<and> subprocess_run sample_world (bandit_cmd sample_world tmp) = Inr out
         \<and> json_loads sample_world (if out = [] then ''{}'' else out) = Inr data
         \<and> py_get data ''results'' (JArr []) = Inr results
         \<and> py_iter results = Inr items
         \<and> JObj kvs \<in> set items
         \<and> (case map_of kvs ''line_number'' of
               None \<Rightarrow> line (sample_issues ! 1) = 1
             | Some v \<Rightarrow> py_int v = Inr (line (sample_issues ! 1)))
         \<and> rule (sample_issues ! 1) = (case map_of kvs ''test_id'' of
                                         None \<Rightarrow> JStr ''BXXX'' | Some r \<Rightarrow> r))"
proof -
  have mem: "sample_issues ! 1 \<in> set sample_issues"
    by (simp add: sample_issues_def)
  have vals: "tool (sample_issues ! 1) = ''bandit''" "line (sample_issues ! 1) = 3"
    by (simp_all add: sample_issues_def)
  have other: "tool (sample_issues ! 1) \<noteq> ''flake8''"
    "tool (sample_issues ! 1) \<noteq> ''complexity''"
    by (simp_all add: sample_issues_def)
  have started: "subprocess_run sample_world (bandit_cmd sample_world tmp)
                   \<noteq> Inl FileNotFoundError" for tmp
    by (simp add: sample_world_fields)
  from review_issue_line_and_tool [OF review_sample mem] other started
  have "\<exists>tmp out data results items kvs.
         write_temp_code sample_world ''code'' ''.py'' = Inr tmp
         \<and> subprocess_run sample_world (bandit_cmd sample_world tmp) = Inr out
         \<and> json_loads sample_world (if out = [] then ''{}'' else out) = Inr data
         \<and> py_get data ''results'' (JArr []) = Inr results
         \<and> py_iter results = Inr items
         \<and> JObj kvs \<in> set items
         \<and> (case map_of kvs ''line_number'' of
               None \<Rightarrow> line (sample_issues ! 1) = 1
             | Some v \<Rightarrow> py_int v = Inr (line (sample_issues ! 1)))
         \<and> rule (sample_issues ! 1) = (case map_of kvs ''test_id'' of
                                         None \<Rightarrow> JStr ''BXXX'' | Some r \<Rightarrow> r)"
    by blast
  with review_sample mem vals show ?thesis by (intro conjI)
qed

section \<open>The review when an analyzer is missing\<close>

text \<open>
  C2, as the code has it. Let the temporary file be written. An adapter whose analyzer
  cannot be started, \<^verbatim>\<open>subprocess.run\<close> raising \<^verbatim>\<open>FileNotFoundError\<close>, returns
  exactly one Issue: line 1, severity LOW, its own tool, rule INSTALL. The review then
  goes on with the other tools, and is what they make it: it returns the synthetic Issue
  together with their Issues when they return, and raises what the first of them raises.
  With both analyzers missing it returns the two synthetic Issues followed by the
  complexity Issues when the complexity analysis returns, and raises what that raises.
\<close>

theorem review_survives_missing_analyzers:
  assumes "write_temp_code w code ''.py'' = Inr tmp"
  shows "(subprocess_run w (flake8_cmd w tmp) = Inl FileNotFoundError \<longrightarrow>
            run_flake8 w code filename_hint =
              Inr [\<lparr>file = filename_hint, line = 1, severity = ''LOW'', tool = ''flake8'',
                    rule = JStr ''INSTALL'',
                    message = JStr ''flake8 not found. Did you install requirements?'',
                    suggestion = None\<rparr>]
            \<and> review_code_string w code filename_hint =
                (case run_bandit w code filename_hint of
                   Inl e \<Rightarrow> Inl e
                 | Inr bd \<Rightarrow>
                     (case run_complexity w code filename_hint 3 of
                        Inl e \<Rightarrow> Inl e
                      | Inr cx \<Rightarrow>
                          Inr (map (\<lambda>i. i\<lparr>suggestion := friendly_suggestion i\<rparr>)
                                 (\<lparr>file = filename_hint, line = 1, severity = ''LOW'',
                                    tool = ''flake8'', rule = JStr ''INSTALL'',
                                    message =
                                      JStr ''flake8 not found. Did you install requirements?'',
                                    suggestion = None\<rparr> # bd @ cx)))))
       \<and> (subprocess_run w (bandit_cmd w tmp) = Inl FileNotFoundError \<longrightarrow>
            run_bandit w code filename_hint =
              Inr [\<lparr>file = filename_hint, line = 1, severity = ''LOW'', tool = ''bandit'',
                    rule = JStr ''INSTALL'',
                    message = JStr ''bandit not found. Did you install requirements?'',
                    suggestion = None\<rparr>]
            \<and> review_code_string w code filename_hint =
                (case run_flake8 w code filename_hint of
                   Inl e \<Rightarrow> Inl e
                 | Inr f8 \<Rightarrow>
                     (case run_complexity w code filename_hint 3 of
                        Inl e \<Rightarrow> Inl e
                      | Inr cx \<Rightarrow>
                          Inr (map (\<lambda>i. i\<lparr>suggestion := friendly_suggestion i\<rparr>)
                                 (f8 @ \<lparr>file = filename_hint, line = 1, severity = ''LOW'',
                                         tool = ''bandit'', rule = JStr ''INSTALL'',
                                         message =
                                           JStr ''bandit not found. Did you install requirements?'',
                                         suggestion = None\<rparr> # cx)))))
       \<and> (subprocess_run w (flake8_cmd w tmp) = Inl FileNotFoundError
            \<and> subprocess_run w (bandit_cmd w tmp) = Inl FileNotFoundError \<longrightarrow>
            review_code_string w code filename_hint =
              (case cc_visit w code of
                 Inl e \<Rightarrow> Inl e
               | Inr blocks \<Rightarrow>
                   Inr (map (\<lambda>i. i\<lparr>suggestion := friendly_suggestion i\<rparr>)
                          ([\<lparr>file = filename_hint, line = 1, severity = ''LOW'',
                             tool = ''flake8'', rule = JStr ''INSTALL'',
                             message = JStr ''flake8 not found. Did you install requirements?'',
                             suggestion = None\<rparr>,
                            \<lparr>file = filename_hint, line = 1, severity = ''LOW'',
                             tool = ''bandit'', rule = JStr ''INSTALL'',
                             message = JStr ''bandit not found. Did you install requirements?'',
                             suggestion = None\<rparr>]
                           @ complexity_loop filename_hint 3 blocks []))))"
proof (intro conjI impI)
  assume m: "subprocess_run w (flake8_cmd w tmp) = Inl FileNotFoundError"
  from run_flake8_missing [OF assms m]
  show f8: "run_flake8 w code filename_hint =
          Inr [\<lparr>file = filename_hint, line = 1, severity = ''LOW'', tool = ''flake8'',
                rule = JStr ''INSTALL'',
                message = JStr ''flake8 not found. Did you install requirements?'',
                suggestion = None\<rparr>]" .
  show "review_code_string w code filename_hint =
                (case run_bandit w code filename_hint of
                   Inl e \<Rightarrow> Inl e
                 | Inr bd \<Rightarrow>
                     (case run_complexity w code filename_hint 3 of
                        Inl e \<Rightarrow> Inl e
                      | Inr cx \<Rightarrow>
                          Inr (map (\<lambda>i. i\<lparr>suggestion := friendly_suggestion i\<rparr>)
                                 (\<lparr>file = filename_hint, line = 1, severity = ''LOW'',
                                    tool = ''flake8'', rule = JStr ''INSTALL'',
                                    message =
                                      JStr ''flake8 not found. Did you install requirements?'',
                                    suggestion = None\<rparr> # bd @ cx))))"
    by (simp add: review_code_string_def f8 split: sum.splits)
next
  assume m: "subprocess_run w (bandit_cmd w tmp) = Inl FileNotFoundError"
  from run_bandit_missing [OF assms m]
  show bd: "run_bandit w code filename_hint =
          Inr [\<lparr>file = filename_hint, line = 1, severity = ''LOW'', tool = ''bandit'',
                rule = JStr ''INSTALL'',
                message = JStr ''bandit not found. Did you install requirements?'',
                suggestion = None\<rparr>]" .
  show "review_code_string w code filename_hint =
                (case run_flake8 w code filename_hint of
                   Inl e \<Rightarrow> Inl e
                 | Inr f8 \<Rightarrow>
                     (case run_complexity w code filename_hint 3 of
                        Inl e \<Rightarrow> Inl e
                      | Inr cx \<Rightarrow>
                          Inr (map (\<lambda>i. i\<lparr>suggestion := friendly_suggestion i\<rparr>)
                                 (f8 @ \<lparr>file = filename_hint, line = 1, severity = ''LOW'',
                                         tool = ''bandit'', rule = JStr ''INSTALL'',
                                         message =
                                           JStr ''bandit not found. Did you install requirements?'',
                                         suggestion = None\<rparr> # cx))))"
    by (simp add: review_code_string_def bd split: sum.splits)
next
  assume "subprocess_run w (flake8_cmd w tmp) = Inl FileNotFoundError
          \<and> subprocess_run w (bandit_cmd w tmp) = Inl FileNotFoundError"
  with run_flake8_missing [OF assms, of filename_hint]
    run_bandit_missing [OF assms, of filename_hint]
  show "review_code_string w code filename_hint =
              (case cc_visit w code of
                 Inl e \<Rightarrow> Inl e
               | Inr blocks \<Rightarrow>
                   Inr (map (\<lambda>i. i\<lparr>suggestion := friendly_suggestion i\<rparr>)
                          ([\<lparr>file = filename_hint, line = 1, severity = ''LOW'',
                             tool = ''flake8'', rule = JStr ''INSTALL'',
                             message = JStr ''flake8 not found. Did you install requirements?'',
                             suggestion = None\<rparr>,
                            \<lparr>file = filename_hint, line = 1, severity = ''LOW'',
                             tool = ''bandit'', rule = JStr ''INSTALL'',
                             message = JStr ''bandit not found. Did you install requirements?'',
                             suggestion = None\<rparr>]
                           @ complexity_loop filename_hint 3 blocks [])))"
    by (simp add: review_code_string_def run_complexity_def split: sum.splits)
qed

theorem review_survives_missing_analyzers_witness:
  "write_temp_code missing_world ''code'' ''.py'' = Inr ''/tmp/tmpq1.py''
   \<and> subprocess_run missing_world (flake8_cmd missing_world ''/tmp/tmpq1.py'')
       = Inl FileNotFoundError
   \<and> subprocess_run missing_world (bandit_cmd missing_world ''/tmp/tmpq1.py'')
       = Inl FileNotFoundError
   \<and> run_flake8 missing_world ''code'' ''snippet.py'' =
       Inr [\<lparr>file = ''snippet.py'', line = 1, severity = ''LOW'', tool = ''flake8'',
             rule = JStr ''INSTALL'',
             message = JStr ''flake8 not found. Did you install requirements?'',
             suggestion = None\<rparr>]
   \<and> run_bandit missing_world ''code'' ''snippet.py'' =
       Inr [\<lparr>file = ''snippet.py'', line = 1, severity = ''LOW'', tool = ''bandit'',
             rule = JStr ''INSTALL'',
             message = JStr ''bandit not found. Did you install requirements?'',
             suggestion = None\<rparr>]
   \<and> review_code_string missing_world ''code'' ''snippet.py'' =
       Inr [\<lparr>file = ''snippet.py'', line = 1, severity = ''LOW'', tool = ''flake8'',
             rule = JStr ''INSTALL'',
             message = JStr ''flake8 not found. Did you install requirements?'',
             suggestion =
               Some ''Follow PEP 8 (naming, spacing, line length) for readability.''\<rparr>,
            \<lparr>file = ''snippet.py'', line = 1, severity = ''LOW'', tool = ''bandit'',
             rule = JStr ''INSTALL'',
             message = JStr ''bandit not found. Did you install requirements?'',
             suggestion =
               Some ''Avoid unsafe functions (e.g., eval); validate and sanitize inputs.''\<rparr>,
            \<lparr>file = ''snippet.py'', line = 4, severity = ''MEDIUM'', tool = ''complexity'',
             rule = JStr ''CC'',
             message = JStr (''Function '' @ [CHR 0x27] @ ''branchy'' @ [CHR 0x27]
                             @ '' is too complex (CC=3).''),
             suggestion = Some ''Extract smaller functions; reduce nesting/branches.''\<rparr>]"
proof -
  have f8: "subprocess_run missing_world (flake8_cmd missing_world ''/tmp/tmpq1.py'')
              = Inl FileNotFoundError"
    and bd: "subprocess_run missing_world (bandit_cmd missing_world ''/tmp/tmpq1.py'')
              = Inl FileNotFoundError"
    and cx: "cc_visit missing_world ''code'' =
              Inr [\<lparr>name = ''small'', complexity = 2, lineno = 1\<rparr>,
                   \<lparr>name = ''branchy'', complexity = 3, lineno = 4\<rparr>]"
    by (simp_all add: missing_world_fields)
  note inst = review_survives_missing_analyzers [OF write_temp_missing,
      of "''code''" "''snippet.py''"]
  from inst f8
  have a: "run_flake8 missing_world ''code'' ''snippet.py'' =
       Inr [\<lparr>file = ''snippet.py'', line = 1, severity = ''LOW'', tool = ''flake8'',
             rule = JStr ''INSTALL'',
             message = JStr ''flake8 not found. Did you install requirements?'',
             suggestion = None\<rparr>]"
    by blast
  from inst bd
  have b: "run_bandit missing_world ''code'' ''snippet.py'' =
       Inr [\<lparr>file = ''snippet.py'', line = 1, severity = ''LOW'', tool = ''bandit'',
             rule = JStr ''INSTALL'',
             message = JStr ''bandit not found. Did you install requirements?'',
             suggestion = None\<rparr>]"
    by blast
  from inst f8 bd
  have "review_code_string missing_world ''code'' ''snippet.py'' =
              (case cc_visit missing_world ''code'' of
                 Inl e \<Rightarrow> Inl e
               | Inr blocks \<Rightarrow>
                   Inr (map (\<lambda>i. i\<lparr>suggestion := friendly_suggestion i\<rparr>)
                          ([\<lparr>file = ''snippet.py'', line = 1, severity = ''LOW'',
                             tool = ''flake8'', rule = JStr ''INSTALL'',
                             message = JStr ''flake8 not found. Did you install requirements?'',
                             suggestion = None\<rparr>,
                            \<lparr>file = ''snippet.py'', line = 1, severity = ''LOW'',
                             tool = ''bandit'', rule = JStr ''INSTALL'',
                             message = JStr ''bandit not found. Did you install requirements?'',
                             suggestion = None\<rparr>]
                           @ complexity_loop ''snippet.py'' 3 blocks [])))"
    by blast
  then have c: "review_code_string missing_world ''code'' ''snippet.py'' =
       Inr [\<lparr>file = ''snippet.py'', line = 1, severity = ''LOW'', tool = ''flake8'',
             rule = JStr ''INSTALL'',
             message = JStr ''flake8 not found. Did you install requirements?'',
             suggestion =
               Some ''Follow PEP 8 (naming, spacing, line length) for readability.''\<rparr>,
            \<lparr>file = ''snippet.py'', line = 1, severity = ''LOW'', tool = ''bandit'',
             rule = JStr ''INSTALL'',
             message = JStr ''bandit not found. Did you install requirements?'',
             suggestion =
               Some ''Avoid unsafe functions (e.g., eval); validate and sanitize inputs.''\<rparr>,
            \<lparr>file = ''snippet.py'', line = 4, severity = ''MEDIUM'', tool = ''complexity'',
             rule = JStr ''CC'',
             message = JStr (''Function '' @ [CHR 0x27] @ ''branchy'' @ [CHR 0x27]
                             @ '' is too complex (CC=3).''),
             suggestion = Some ''Extract smaller functions; reduce nesting/branches.''\<rparr>]"
    by (simp add: cx friendly_suggestion_def py_str_int_small)
  from write_temp_missing [of "''code''"] f8 bd a b c show ?thesis by (intro conjI)
qed

text \<open>
  C2 as stated fails. With both analyzers missing, the review of a text that is not
  Python raises the \<^verbatim>\<open>SyntaxError\<close> of the complexity analysis instead of returning
  a list. An interpreter that is found and may not be executed makes the adapter, and
  the review, raise \<^verbatim>\<open>PermissionError\<close>. And an interpreter that starts and prints
  nothing, as for an analyzer whose module is not installed, gives no INSTALL Issue: the
  adapters return empty lists.
\<close>

theorem review_raises_with_missing_analyzers:
  "subprocess_run unparsable_world (flake8_cmd unparsable_world ''/tmp/tmpq1.py'')
     = Inl FileNotFoundError
   \<and> subprocess_run unparsable_world (bandit_cmd unparsable_world ''/tmp/tmpq1.py'')
     = Inl FileNotFoundError
   \<and> review_code_string unparsable_world ''def ('' ''snippet.py'' = Inl SyntaxError
   \<and> run_flake8 no_permission_world ''code'' ''snippet.py'' = Inl PermissionError
   \<and> review_code_string no_permission_world ''code'' ''snippet.py'' = Inl PermissionError
   \<and> run_flake8 not_installed_world ''code'' ''snippet.py'' = Inr []
   \<and> run_bandit not_installed_world ''code'' ''snippet.py'' = Inr []"
proof -
  have tmp: "write_temp_code unparsable_world c ''.py'' = Inr ''/tmp/tmpq1.py''"
    "write_temp_code no_permission_world c ''.py'' = Inr ''/tmp/tmpq1.py''"
    "write_temp_code not_installed_world c ''.py'' = Inr ''/tmp/tmpq1.py''" for c
    by (simp_all add: write_temp_code_def unparsable_world_def missing_world_def
        no_permission_world_def not_installed_world_def sample_world_def)
  have run: "subprocess_run unparsable_world cmd = Inl FileNotFoundError"
    "subprocess_run no_permission_world cmd = Inl PermissionError"
    "subprocess_run not_installed_world cmd = Inr []" for cmd
    by (simp_all add: unparsable_world_def missing_world_def no_permission_world_def
        not_installed_world_def sample_world_def)
  have cc: "cc_visit unparsable_world c = Inl SyntaxError" for c
    by (simp add: unparsable_world_def)
  have loads: "json_loads not_installed_world ''{}'' = Inr (JObj [])"
    by (simp add: not_installed_world_def sample_world_def sample_bandit_out_def)
  have a: "review_code_string unparsable_world ''def ('' ''snippet.py'' = Inl SyntaxError"
    by (simp add: review_code_string_def run_flake8_def run_bandit_def run_complexity_def
        tmp run cc except_matches_def)
  have b: "run_flake8 no_permission_world ''code'' ''snippet.py'' = Inl PermissionError"
    by (simp add: run_flake8_def tmp run except_matches_def)
  then have c: "review_code_string no_permission_world ''code'' ''snippet.py''
                  = Inl PermissionError"
    by (simp add: review_code_string_def)
  have d: "run_flake8 not_installed_world ''code'' ''snippet.py'' = Inr []"
    by (simp add: run_flake8_def tmp run py_strip_def py_splitlines_def)
  have e: "run_bandit not_installed_world ''code'' ''snippet.py'' = Inr []"
    by (simp add: run_bandit_def tmp run bandit_try_def loads py_get_def py_iter_def)
  from run(1) a b c d e show ?thesis by (intro conjI)
qed

section \<open>Blanks around an integer\<close>

text \<open>
  \<^verbatim>\<open>int()\<close> skips fewer characters than \<^verbatim>\<open>str.strip()\<close> removes: a unit
  separator before the digits makes it raise.
\<close>

lemma py_int_str_unit_separator:
  "py_strip [CHR 0x1F, CHR ''7''] = ''7''"
  "py_int_str [CHR 0x1F, CHR ''7''] = Inl ValueError"
  "py_int_str [CHR 0x0B, CHR ''7'', CHR 0x0A] = Inr 7"
  by (simp_all add: py_strip_def is_space_def py_int_str_def is_int_blank_def is_digit_def
      digit_value_def)

end
